theory Spec2Isabelle
  imports Complex_Main "HOL-Library.Log_Nat"
begin

section \<open>Errors\<close>

text \<open>
  The exceptions that the modelled code raises: the refusal of \<^verbatim>\<open>@login_required\<close>,
  Python's \<^verbatim>\<open>TypeError\<close>, \<^verbatim>\<open>OverflowError\<close> and \<^verbatim>\<open>ZeroDivisionError\<close>, and the
  database's \<^verbatim>\<open>IntegrityError\<close>. A view that raises commits nothing.
\<close>

datatype error = Unauthorized | TypeError | OverflowError | IntegrityError | ZeroDivisionError

section \<open>Time\<close>

text \<open>
  A \<^verbatim>\<open>datetime\<close> is the number of microseconds since 1970-01-01T00:00:00 UTC and a
  \<^verbatim>\<open>date\<close> the number of whole days since 1970-01-01. Python's \<^verbatim>\<open>datetime\<close> covers
  the years 1 to 9999, from \<open>datetime_min\<close> to \<open>datetime_max\<close>, and a \<^verbatim>\<open>timedelta\<close> at
  most 999999999 days either way; outside these ranges the constructor and the
  subtraction raise \<^verbatim>\<open>OverflowError\<close>. \<^verbatim>\<open>timedelta(minutes=m)\<close> is
  \<open>timedelta_minutes m\<close>, in microseconds, \<^verbatim>\<open>t - delta\<close> is \<open>datetime_sub t delta\<close>,
  \<^verbatim>\<open>timedelta(days=k)\<close> on a date is the integer \<open>k\<close>, and \<^verbatim>\<open>func.date(t)\<close> and
  \<^verbatim>\<open>t.date()\<close> are \<open>date_of t\<close>. The readings of the server clock are arguments of the
  views.
\<close>

type_synonym datetime = int
type_synonym date = int

definition datetime_min :: datetime where
  "datetime_min = - 62135596800000000"

definition datetime_max :: datetime where
  "datetime_max = 253402300799999999"

definition timedelta_minutes :: "int \<Rightarrow> error + int" where
  "timedelta_minutes m =
     (if - 999999999 \<le> m div 1440 \<and> m div 1440 \<le> 999999999
      then Inr (m * 60000000) else Inl OverflowError)"

definition datetime_sub :: "datetime \<Rightarrow> int \<Rightarrow> error + datetime" where
  "datetime_sub t delta =
     (if datetime_min \<le> t - delta \<and> t - delta \<le> datetime_max
      then Inr (t - delta) else Inl OverflowError)"

definition date_of :: "datetime \<Rightarrow> date" where
  "date_of t = t div 86400000000"

section \<open>The tables of models.py\<close>

record User =
  id :: nat
  username :: string
  email :: string
  password_hash :: string
  created_at :: datetime
  last_login :: "datetime option"

record PomodoroSession =
  id :: nat
  user_id :: nat
  duration :: int
  completed :: bool
  session_type :: string
  started_at :: datetime
  completed_at :: "datetime option"
  task_description :: "string option"

record UserSettings =
  id :: nat
  user_id :: nat
  work_duration :: int
  short_break_duration :: int
  long_break_duration :: int
  long_break_interval :: int
  auto_start_breaks :: bool
  auto_start_pomodoros :: bool
  notifications_enabled :: bool
  sound_enabled :: bool
  theme :: string

text \<open>The database: each table is the list of its rows in insertion order.\<close>

record db =
  users :: "User list"
  pomodoro_sessions :: "PomodoroSession list"
  user_settings :: "UserSettings list"

definition empty_db :: db where
  "empty_db = \<lparr>users = [], pomodoro_sessions = [], user_settings = []\<rparr>"

text \<open>An integer primary key: the row inserted gets the largest id of the table plus one.\<close>

definition next_id :: "nat list \<Rightarrow> nat" where
  "next_id ids = Suc (fold max ids 0)"

text \<open>
  An \<^verbatim>\<open>INTEGER\<close> of the SQLite database holds 64 bits: binding a Python integer
  outside this range raises \<^verbatim>\<open>OverflowError\<close> before the statement runs.
\<close>

definition sqlite_integer :: "int \<Rightarrow> bool" where
  "sqlite_integer m \<longleftrightarrow> - (2 ^ 63) \<le> m \<and> m < 2 ^ 63"

text \<open>
  \<^verbatim>\<open>db.session.add(session)\<close> and \<^verbatim>\<open>db.session.commit()\<close> for a new
  \<^verbatim>\<open>PomodoroSession\<close> whose attributes are given; \<open>None\<close> is Python's \<^verbatim>\<open>None\<close>. The
  duration is bound as an integer, and the columns \<^verbatim>\<open>duration\<close> and \<^verbatim>\<open>session_type\<close>
  are \<^verbatim>\<open>nullable=False\<close>. The task description is never set.
\<close>

definition add_PomodoroSession ::
  "db \<Rightarrow> nat \<Rightarrow> int option \<Rightarrow> bool \<Rightarrow> string option \<Rightarrow> datetime \<Rightarrow> datetime option
     \<Rightarrow> error + db \<times> PomodoroSession" where
  "add_PomodoroSession d uid dur is_completed ty started finished =
     (case dur of
        None \<Rightarrow> Inl IntegrityError
      | Some m \<Rightarrow>
          if \<not> sqlite_integer m then Inl OverflowError
          else (case ty of
                  None \<Rightarrow> Inl IntegrityError
                | Some t \<Rightarrow>
                    (let session =
                       \<lparr>PomodoroSession.id =
                          next_id (map PomodoroSession.id (pomodoro_sessions d)),
                        user_id = uid, duration = m, completed = is_completed, session_type = t,
                        started_at = started, completed_at = finished,
                        task_description = None\<rparr>
                     in Inr (d\<lparr>pomodoro_sessions := pomodoro_sessions d @ [session]\<rparr>,
                             session))))"

text \<open>
  \<^verbatim>\<open>UserSettings(user_id=uid)\<close> once inserted: every column that the constructor does
  not set takes its \<^verbatim>\<open>default=\<close> of models.py.
\<close>

definition default_UserSettings :: "nat \<Rightarrow> nat \<Rightarrow> UserSettings" where
  "default_UserSettings new_id uid =
     \<lparr>UserSettings.id = new_id, user_id = uid,
      work_duration = 25, short_break_duration = 5, long_break_duration = 15,
      long_break_interval = 4,
      auto_start_breaks = False, auto_start_pomodoros = False,
      notifications_enabled = True, sound_enabled = True,
      theme = ''light''\<rparr>"

text \<open>
  The method \<^verbatim>\<open>PomodoroSession.complete_session\<close> of models.py, on the row whose id is
  \<open>sid\<close>, at the clock reading \<open>now\<close>.
\<close>

definition PomodoroSession_complete_session :: "db \<Rightarrow> nat \<Rightarrow> datetime \<Rightarrow> db" where
  "PomodoroSession_complete_session d sid now =
     d\<lparr>pomodoro_sessions :=
         map (\<lambda>s. if PomodoroSession.id s = sid
                  then s\<lparr>completed := True, completed_at := Some now\<rparr> else s)
             (pomodoro_sessions d)\<rparr>"

section \<open>Requests\<close>

text \<open>
  The JSON object of a session request, with the two keys the routes read. A key is
  absent, holds \<^verbatim>\<open>null\<close>, or holds a value: an integer for \<^verbatim>\<open>duration\<close>, a string
  for \<^verbatim>\<open>session_type\<close> (values of other JSON types are outside the model).
  \<^verbatim>\<open>data.get(key, default)\<close> is \<open>dict_get\<close>: the default stands in for an absent key
  only, and \<^verbatim>\<open>null\<close> comes back as \<^verbatim>\<open>None\<close>.
\<close>

datatype 'a json_key = Absent | Null | Given 'a

record request_json =
  duration :: "int json_key"
  session_type :: "string json_key"

definition dict_get :: "'a json_key \<Rightarrow> 'a \<Rightarrow> 'a option" where
  "dict_get v dflt = (case v of Absent \<Rightarrow> Some dflt | Null \<Rightarrow> None | Given x \<Rightarrow> Some x)"

text \<open>
  \<^verbatim>\<open>@login_required\<close> with the \<^verbatim>\<open>user_loader\<close> of app/__init__.py: the view runs
  for the user whose id the login cookie holds, when that user exists; otherwise the
  request is sent to the login page and the view does not run.
\<close>

definition load_user :: "db \<Rightarrow> nat \<Rightarrow> User option" where
  "load_user d uid = find (\<lambda>u. User.id u = uid) (users d)"

definition login_required :: "db \<Rightarrow> nat option \<Rightarrow> (nat \<Rightarrow> error + 'a) \<Rightarrow> error + 'a" where
  "login_required d cookie view =
     (case cookie of
        None \<Rightarrow> Inl Unauthorized
      | Some uid \<Rightarrow>
          (case load_user d uid of
             None \<Rightarrow> Inl Unauthorized
           | Some u \<Rightarrow> view (User.id u)))"

text \<open>
  The database after a request: the one that the view committed, or the one before the
  request when the view raised.
\<close>

definition db_after :: "db \<Rightarrow> error + db \<times> 'a \<Rightarrow> db" where
  "db_after d result = (case result of Inl e \<Rightarrow> d | Inr (d', response) \<Rightarrow> d')"

section \<open>The session routes of routes.py\<close>

text \<open>The filter that every statistics query repeats: the user's completed work sessions.\<close>

definition qualifying :: "nat \<Rightarrow> PomodoroSession \<Rightarrow> bool" where
  "qualifying uid s \<longleftrightarrow>
     PomodoroSession.user_id s = uid \<and> PomodoroSession.session_type s = ''work''
     \<and> completed s = True"

definition total_count :: "db \<Rightarrow> nat \<Rightarrow> nat" where
  "total_count d uid = length (filter (qualifying uid) (pomodoro_sessions d))"

text \<open>
  \<open>start_session\<close>: the body of the view, for the current user \<open>uid\<close> and the clock reading
  \<open>now\<close>. The result is the new database and the \<^verbatim>\<open>session_id\<close> of the response, or
  the exception of the insertion.
\<close>

definition start_session ::
  "db \<Rightarrow> nat \<Rightarrow> request_json \<Rightarrow> datetime \<Rightarrow> error + db \<times> nat" where
  "start_session d uid data now =
     (case add_PomodoroSession d uid
             (dict_get (request_json.duration data) 25)
             False
             (dict_get (request_json.session_type data) ''work'')
             now
             None of
        Inl e \<Rightarrow> Inl e
      | Inr (d', session) \<Rightarrow> Inr (d', PomodoroSession.id session))"

text \<open>
  \<open>complete_session\<close>: the view reads the clock twice, \<open>now1\<close> for \<^verbatim>\<open>started_at\<close> and
  then \<open>now2\<close> for \<^verbatim>\<open>completed_at\<close>. \<^verbatim>\<open>timedelta(minutes=None)\<close> raises
  \<^verbatim>\<open>TypeError\<close>. The result is the new database, the \<^verbatim>\<open>session_id\<close> and the
  \<^verbatim>\<open>total_sessions\<close> of the response, or the exception raised on the way.
\<close>

definition complete_session ::
  "db \<Rightarrow> nat \<Rightarrow> request_json \<Rightarrow> datetime \<Rightarrow> datetime \<Rightarrow> error + db \<times> nat \<times> nat" where
  "complete_session d uid data now1 now2 =
     (case dict_get (request_json.duration data) 25 of
        None \<Rightarrow> Inl TypeError
      | Some m \<Rightarrow>
          (case timedelta_minutes m of
             Inl e \<Rightarrow> Inl e
           | Inr delta \<Rightarrow>
               (case datetime_sub now1 delta of
                  Inl e \<Rightarrow> Inl e
                | Inr started \<Rightarrow>
                    (case add_PomodoroSession d uid
                            (Some m)
                            True
                            (dict_get (request_json.session_type data) ''work'')
                            started
                            (Some now2) of
                       Inl e \<Rightarrow> Inl e
                     | Inr (d', session) \<Rightarrow>
                         Inr (d', PomodoroSession.id session, total_count d' uid)))))"

text \<open>The two routes as served: the views behind \<^verbatim>\<open>@login_required\<close>.\<close>

definition api_session_start ::
  "db \<Rightarrow> nat option \<Rightarrow> request_json \<Rightarrow> datetime \<Rightarrow> error + db \<times> nat" where
  "api_session_start d cookie data now =
     login_required d cookie (\<lambda>uid. start_session d uid data now)"

definition api_session_complete ::
  "db \<Rightarrow> nat option \<Rightarrow> request_json \<Rightarrow> datetime \<Rightarrow> datetime \<Rightarrow> error + db \<times> nat \<times> nat" where
  "api_session_complete d cookie data now1 now2 =
     login_required d cookie (\<lambda>uid. complete_session d uid data now1 now2)"

section \<open>Statistics\<close>

definition count_on_date :: "db \<Rightarrow> nat \<Rightarrow> date \<Rightarrow> nat" where
  "count_on_date d uid day =
     length (filter (\<lambda>s. qualifying uid s \<and> date_of (started_at s) = day)
               (pomodoro_sessions d))"

definition count_since :: "db \<Rightarrow> nat \<Rightarrow> date \<Rightarrow> nat" where
  "count_since d uid day =
     length (filter (\<lambda>s. qualifying uid s \<and> date_of (started_at s) \<ge> day)
               (pomodoro_sessions d))"

text \<open>\<open>get_stats\<close>: \<^verbatim>\<open>today_sessions\<close> and \<^verbatim>\<open>total_sessions\<close> of the response.\<close>

definition get_stats :: "db \<Rightarrow> nat \<Rightarrow> datetime \<Rightarrow> nat \<times> nat" where
  "get_stats d uid now =
     (let today = date_of now
      in (count_on_date d uid today, total_count d uid))"

text \<open>
  The chart loop of \<open>dashboard\<close>: \<^verbatim>\<open>for i in range(7)\<close>, appending the count of the day
  \<^verbatim>\<open>today - timedelta(days=6-i)\<close>.
\<close>

fun weekly_loop :: "db \<Rightarrow> nat \<Rightarrow> date \<Rightarrow> nat list \<Rightarrow> nat list \<Rightarrow> nat list" where
  "weekly_loop d uid today [] weekly_data = weekly_data"
| "weekly_loop d uid today (i # is) weekly_data =
     weekly_loop d uid today is
       (weekly_data @ [count_on_date d uid (today - (6 - int i))])"

definition weekly_histogram :: "db \<Rightarrow> nat \<Rightarrow> date \<Rightarrow> nat list" where
  "weekly_histogram d uid today = weekly_loop d uid today [0..<7] []"

section \<open>Total focus time\<close>

text \<open>
  \<^verbatim>\<open>func.sum(PomodoroSession.duration)\<close> over the qualifying rows is \<^verbatim>\<open>NULL\<close> when no
  row qualifies; \<^verbatim>\<open>.scalar() or 0\<close> turns \<^verbatim>\<open>None\<close> (and a sum of zero) into 0.
\<close>

definition sql_sum :: "int list \<Rightarrow> int option" where
  "sql_sum xs = (if xs = [] then None else Some (sum_list xs))"

definition or_0 :: "int option \<Rightarrow> int" where
  "or_0 v = (case v of None \<Rightarrow> 0 | Some x \<Rightarrow> if x = 0 then 0 else x)"

definition total_duration :: "db \<Rightarrow> nat \<Rightarrow> int" where
  "total_duration d uid =
     or_0 (sql_sum (map PomodoroSession.duration
                      (filter (qualifying uid) (pomodoro_sessions d))))"

text \<open>
  \<^verbatim>\<open>round(total_duration / 60, 1)\<close> is computed on binary64 floating-point numbers. A
  float is modelled by the rational number it denotes. \<open>float_of_rat q\<close> is the float
  nearest to \<open>q\<close>, ties to the even significand: 53 significant bits above
  \<open>2 ^ -1022\<close>, multiples of \<open>2 ^ -1074\<close> below. Python's \<^verbatim>\<open>int / int\<close> is the
  correctly rounded quotient, and raises when it is too large for a float.
  \<^verbatim>\<open>round(x, 1)\<close> rounds the exact value of the float \<open>x\<close> to the nearest tenth, ties to
  the even tenth, and returns the float nearest to that decimal.
\<close>

definition round_half_even :: "rat \<Rightarrow> int" where
  "round_half_even q =
     (let f = \<lfloor>q\<rfloor>; r = q - of_int f
      in if r < 1 / 2 then f
         else if 1 / 2 < r then f + 1
         else if even f then f else f + 1)"

definition pow2 :: "int \<Rightarrow> rat" where
  "pow2 e = (if 0 \<le> e then 2 ^ nat e else 1 / 2 ^ nat (- e))"

text \<open>\<open>ilog2 q\<close> is the integer \<open>k\<close> with \<open>2 ^ k \<le> \<bar>q\<bar> < 2 ^ (k + 1)\<close>, for \<open>q \<noteq> 0\<close>.\<close>

definition ilog2 :: "rat \<Rightarrow> int" where
  "ilog2 q =
     (let (a, b) = quotient_of \<bar>q\<bar>; k = bitlen a - bitlen b
      in if pow2 k \<le> \<bar>q\<bar> then k else k - 1)"

definition float_of_rat :: "rat \<Rightarrow> rat" where
  "float_of_rat q =
     (if q = 0 then 0
      else let e = max (ilog2 q) (- 1022) - 52
           in of_int (round_half_even (q / pow2 e)) * pow2 e)"

definition py_truediv :: "int \<Rightarrow> int \<Rightarrow> error + rat" where
  "py_truediv a b =
     (if b = 0 then Inl ZeroDivisionError
      else let x = float_of_rat (of_int a / of_int b)
           in if 2 ^ 1024 \<le> \<bar>x\<bar> then Inl OverflowError else Inr x)"

definition py_round1 :: "rat \<Rightarrow> rat" where
  "py_round1 x = float_of_rat (of_int (round_half_even (x * 10)) / 10)"

definition total_focus_hours :: "db \<Rightarrow> nat \<Rightarrow> error + rat" where
  "total_focus_hours d uid =
     (case py_truediv (total_duration d uid) 60 of
        Inl e \<Rightarrow> Inl e
      | Inr x \<Rightarrow> Inr (py_round1 x))"

text \<open>
  \<open>dashboard\<close>: the \<^verbatim>\<open>stats\<close> dictionary and \<^verbatim>\<open>weekly_data\<close> handed to the template.
  The listing of the ten most recent sessions is not modelled.
\<close>

record stats =
  today_sessions :: nat
  week_sessions :: nat
  total_sessions :: nat
  total_hours :: rat

definition dashboard :: "db \<Rightarrow> nat \<Rightarrow> datetime \<Rightarrow> error + stats \<times> nat list" where
  "dashboard d uid now =
     (let today = date_of now;
          week_ago = today - 7
      in case total_focus_hours d uid of
           Inl e \<Rightarrow> Inl e
         | Inr h \<Rightarrow>
             Inr (\<lparr>today_sessions = count_on_date d uid today,
                   week_sessions = count_since d uid week_ago,
                   total_sessions = total_count d uid,
                   total_hours = h\<rparr>,
                  weekly_histogram d uid today))"

section \<open>Settings\<close>

text \<open>
  \<open>SettingsForm\<close> of forms.py after it has read the submitted data: the \<^verbatim>\<open>data\<close> of an
  \<^verbatim>\<open>IntegerField\<close> is \<open>None\<close> when the submitted text is not an integer. The check of
  the CSRF token belongs to the HTTP layer and is not modelled.
\<close>

record SettingsForm =
  work_duration :: "int option"
  short_break_duration :: "int option"
  long_break_duration :: "int option"
  long_break_interval :: "int option"
  auto_start_breaks :: bool
  auto_start_pomodoros :: bool
  notifications_enabled :: bool
  sound_enabled :: bool

text \<open>
  The two validators of every integer field. \<^verbatim>\<open>DataRequired\<close> fails on data that is
  false in Python (\<^verbatim>\<open>None\<close> and 0) and stops the chain with "This field is required.";
  \<^verbatim>\<open>NumberRange(min, max)\<close> fails outside the closed interval with "Number must be
  between min and max.".
\<close>

datatype validation_message = Field_required | Number_between int int

definition DataRequired :: "int option \<Rightarrow> bool" where
  "DataRequired data = (case data of None \<Rightarrow> False | Some x \<Rightarrow> x \<noteq> 0)"

definition NumberRange :: "int \<Rightarrow> int \<Rightarrow> int option \<Rightarrow> bool" where
  "NumberRange mn mx data = (case data of None \<Rightarrow> False | Some x \<Rightarrow> mn \<le> x \<and> x \<le> mx)"

definition validate_field :: "int \<Rightarrow> int \<Rightarrow> int option \<Rightarrow> validation_message list" where
  "validate_field mn mx data =
     (if \<not> DataRequired data then [Field_required]
      else if \<not> NumberRange mn mx data then [Number_between mn mx]
      else [])"

text \<open>\<^verbatim>\<open>form.errors\<close> after \<^verbatim>\<open>form.validate()\<close>: the fields that have errors, by name.\<close>

definition form_errors :: "SettingsForm \<Rightarrow> (string \<times> validation_message list) list" where
  "form_errors form =
     filter (\<lambda>(name, errs). errs \<noteq> [])
       [(''work_duration'', validate_field 1 60 (SettingsForm.work_duration form)),
        (''short_break_duration'', validate_field 1 30 (SettingsForm.short_break_duration form)),
        (''long_break_duration'', validate_field 1 60 (SettingsForm.long_break_duration form)),
        (''long_break_interval'', validate_field 2 10 (SettingsForm.long_break_interval form))]"

definition validate :: "SettingsForm \<Rightarrow> bool" where
  "validate form \<longleftrightarrow> form_errors form = []"

text \<open>
  \<^verbatim>\<open>form.populate_obj(user_settings)\<close>: every field of the form is written to the row.
  The route calls it after \<open>validate\<close> only, when every integer field holds a number.
\<close>

definition populate_obj :: "SettingsForm \<Rightarrow> UserSettings \<Rightarrow> UserSettings" where
  "populate_obj form us =
     us\<lparr>UserSettings.work_duration := the (SettingsForm.work_duration form),
        UserSettings.short_break_duration := the (SettingsForm.short_break_duration form),
        UserSettings.long_break_duration := the (SettingsForm.long_break_duration form),
        UserSettings.long_break_interval := the (SettingsForm.long_break_interval form),
        UserSettings.auto_start_breaks := SettingsForm.auto_start_breaks form,
        UserSettings.auto_start_pomodoros := SettingsForm.auto_start_pomodoros form,
        UserSettings.notifications_enabled := SettingsForm.notifications_enabled form,
        UserSettings.sound_enabled := SettingsForm.sound_enabled form\<rparr>"

text \<open>
  The first lines of the \<open>settings\<close> view (the spec's \<^verbatim>\<open>get_or_create_settings\<close>): the
  first settings row of the user, created with the defaults when there is none.
\<close>

definition get_or_create_settings :: "db \<Rightarrow> nat \<Rightarrow> db \<times> UserSettings" where
  "get_or_create_settings d uid =
     (case find (\<lambda>s. UserSettings.user_id s = uid) (user_settings d) of
        Some us \<Rightarrow> (d, us)
      | None \<Rightarrow>
          (let us = default_UserSettings (next_id (map UserSettings.id (user_settings d))) uid
           in (d\<lparr>user_settings := user_settings d @ [us]\<rparr>, us)))"

text \<open>
  The same lines as the two statements they run, for requests that overlap:
  \<open>first_user_settings\<close> is the query and \<open>create_if_missing\<close> the insertion and commit
  that follow when the query has found no row.
\<close>

definition first_user_settings :: "db \<Rightarrow> nat \<Rightarrow> UserSettings option" where
  "first_user_settings d uid = find (\<lambda>s. UserSettings.user_id s = uid) (user_settings d)"

definition create_if_missing :: "db \<Rightarrow> nat \<Rightarrow> UserSettings option \<Rightarrow> db \<times> UserSettings" where
  "create_if_missing d uid found =
     (case found of
        Some us \<Rightarrow> (d, us)
      | None \<Rightarrow>
          (let us = default_UserSettings (next_id (map UserSettings.id (user_settings d))) uid
           in (d\<lparr>user_settings := user_settings d @ [us]\<rparr>, us)))"

text \<open>
  Two requests for the settings page, of the users \<open>uid_a\<close> and \<open>uid_b\<close>, that
  overlap: both run the query before either runs its insertion. Nothing in the view or
  in the table (the column \<^verbatim>\<open>user_id\<close> is not unique) orders the four statements
  otherwise. The result is the database after both.
\<close>

definition overlapping_settings_requests :: "db \<Rightarrow> nat \<Rightarrow> nat \<Rightarrow> db" where
  "overlapping_settings_requests d uid_a uid_b =
     (let found_a = first_user_settings d uid_a;
          found_b = first_user_settings d uid_b;
          (d1, us_a) = create_if_missing d uid_a found_a;
          (d2, us_b) = create_if_missing d1 uid_b found_b
      in d2)"

text \<open>
  The \<open>settings\<close> view for the current user \<open>uid\<close>: \<open>None\<close> is a GET, \<open>Some form\<close> a POST of
  the form (the spec's \<^verbatim>\<open>update_settings\<close>). The page is rendered with the errors of the
  form and the settings row, or the browser is redirected after a successful update.
\<close>

datatype settings_response =
  Render "(string \<times> validation_message list) list" UserSettings
| Redirect

definition settings :: "db \<Rightarrow> nat \<Rightarrow> SettingsForm option \<Rightarrow> db \<times> settings_response" where
  "settings d uid request =
     (let (d1, us) = get_or_create_settings d uid
      in case request of
           None \<Rightarrow> (d1, Render [] us)
         | Some form \<Rightarrow>
             if validate form
             then (d1\<lparr>user_settings :=
                        map (\<lambda>s. if UserSettings.id s = UserSettings.id us
                                 then populate_obj form s else s)
                            (user_settings d1)\<rparr>,
                   Redirect)
             else (d1, Render (form_errors form) us))"

section \<open>Registration and login\<close>

text \<open>
  \<open>register\<close> once \<^verbatim>\<open>RegistrationForm\<close> has validated: the user row, then the default
  settings row of the new user. \<open>update_last_login\<close> is what \<open>login\<close> changes. The
  unique indexes on user names and e-mail addresses are not modelled.
\<close>

definition register :: "db \<Rightarrow> string \<Rightarrow> string \<Rightarrow> string \<Rightarrow> datetime \<Rightarrow> db" where
  "register d name mail pwhash now =
     (let user = \<lparr>User.id = next_id (map User.id (users d)),
                  username = name, email = mail, password_hash = pwhash,
                  created_at = now, last_login = None\<rparr>;
          d1 = d\<lparr>users := users d @ [user]\<rparr>;
          us = default_UserSettings
                 (next_id (map UserSettings.id (user_settings d1))) (User.id user)
      in d1\<lparr>user_settings := user_settings d1 @ [us]\<rparr>)"

text \<open>\<^verbatim>\<open>seed_db\<close> of run.py: the demo user, without a settings row.\<close>

definition seed_db :: "db \<Rightarrow> string \<Rightarrow> datetime \<Rightarrow> db" where
  "seed_db d pwhash now =
     (let test_user = \<lparr>User.id = next_id (map User.id (users d)),
                       username = ''demo'', email = ''demo@example.com'',
                       password_hash = pwhash,
                       created_at = now, last_login = None\<rparr>
      in d\<lparr>users := users d @ [test_user]\<rparr>)"

definition update_last_login :: "db \<Rightarrow> nat \<Rightarrow> datetime \<Rightarrow> db" where
  "update_last_login d uid now =
     d\<lparr>users := map (\<lambda>u. if User.id u = uid then u\<lparr>last_login := Some now\<rparr> else u)
                    (users d)\<rparr>"

section \<open>The states the application reaches\<close>

text \<open>
  \<open>reachable t d\<close>: requests served one after the other lead from the empty database to
  \<open>d\<close>, and \<open>t\<close> is the latest reading of the server clock. The clock never runs
  backwards. The views behind \<^verbatim>\<open>@login_required\<close> run for an existing user; a view
  that raises leaves the database as it was. The method
  \<^verbatim>\<open>PomodoroSession.complete_session\<close>, which no route calls, may run on any row.
\<close>

inductive reachable :: "datetime \<Rightarrow> db \<Rightarrow> bool" where
  init: "reachable t empty_db"
| do_register:
    "reachable t d \<Longrightarrow> t \<le> now \<Longrightarrow> reachable now (register d name mail pwhash now)"
| do_seed_db:
    "reachable t d \<Longrightarrow> t \<le> now \<Longrightarrow> reachable now (seed_db d pwhash now)"
| do_login:
    "reachable t d \<Longrightarrow> t \<le> now \<Longrightarrow> load_user d uid = Some u
     \<Longrightarrow> reachable now (update_last_login d (User.id u) now)"
| do_settings:
    "reachable t d \<Longrightarrow> load_user d uid = Some u
     \<Longrightarrow> reachable t (fst (settings d (User.id u) request))"
| do_start_session:
    "reachable t d \<Longrightarrow> load_user d uid = Some u \<Longrightarrow> t \<le> now
     \<Longrightarrow> reachable now (db_after d (start_session d (User.id u) data now))"
| do_complete_session:
    "reachable t d \<Longrightarrow> load_user d uid = Some u \<Longrightarrow> t \<le> now1 \<Longrightarrow> now1 \<le> now2
     \<Longrightarrow> reachable now2 (db_after d (complete_session d (User.id u) data now1 now2))"
| do_PomodoroSession_complete_session:
    "reachable t d \<Longrightarrow> t \<le> now
     \<Longrightarrow> reachable now (PomodoroSession_complete_session d sid now)"

section \<open>Session cycle policy\<close>

text \<open>
  Modelled from the spec: \<^verbatim>\<open>next_session_type\<close>, which the Python sources do not
  contain (the cycle lives in the browser's timer script). Section 4.4 of the spec: after
  every \<^verbatim>\<open>long_break_interval\<close>-th completed work session the next type is long_break,
  otherwise after a work session it is short_break, and after any break it is work. The
  type of the session that has just finished decides between the cases, so it is an
  argument here, next to the settings and the count of completed work sessions of the
  cycle.
\<close>

datatype session_kind = Work | Short_break | Long_break

definition next_session_type :: "UserSettings \<Rightarrow> session_kind \<Rightarrow> nat \<Rightarrow> session_kind" where
  "next_session_type s finished n =
     (case finished of
        Work \<Rightarrow>
          if 0 < n \<and> UserSettings.long_break_interval s dvd int n
          then Long_break else Short_break
      | Short_break \<Rightarrow> Work
      | Long_break \<Rightarrow> Work)"

section \<open>Example states\<close>

text \<open>The database after \<^verbatim>\<open>seed_db\<close> on an empty one, its user, and request bodies.\<close>

definition demo_db :: db where
  "demo_db = seed_db empty_db ''pbkdf2'' 0"

definition demo_user :: User where
  "demo_user = \<lparr>User.id = 1, username = ''demo'', email = ''demo@example.com'',
                 password_hash = ''pbkdf2'', created_at = 0, last_login = None\<rparr>"

definition work_minutes :: "int \<Rightarrow> request_json" where
  "work_minutes m = \<lparr>request_json.duration = Given m, session_type = Given ''work''\<rparr>"

definition work_25 :: request_json where
  "work_25 = work_minutes 25"

definition nap_25 :: request_json where
  "nap_25 = \<lparr>request_json.duration = Given 25, session_type = Given ''nap''\<rparr>"



text \<open>
  \<open>minutes_db m\<close>: the demo user has completed one work session of \<open>m\<close> minutes, at
  minute 25 of the epoch. \<open>done_db\<close> is the one of 25 minutes.
  \<open>started_db\<close>: the demo user has started a 25-minute work session.
  \<open>future_db\<close>: the demo user has sent a completion with a duration of minus one day.
  \<open>three_db\<close>: the demo user has completed work sessions of 25, 25 and 10 minutes.
\<close>

definition minutes_db :: "int \<Rightarrow> db" where
  "minutes_db m =
     db_after demo_db (complete_session demo_db 1 (work_minutes m) 1500000000 1500000000)"

definition done_db :: db where
  "done_db = minutes_db 25"

definition started_db :: db where
  "started_db = db_after demo_db (start_session demo_db 1 work_25 0)"

definition future_db :: db where
  "future_db = db_after demo_db (complete_session demo_db 1 (work_minutes (- 1440)) 0 0)"

definition three_db :: db where
  "three_db =
     db_after (db_after (minutes_db 25)
                 (complete_session (minutes_db 25) 1 (work_minutes 25) 1500000000 1500000000))
       (complete_session
          (db_after (minutes_db 25)
             (complete_session (minutes_db 25) 1 (work_minutes 25) 1500000000 1500000000))
          1 (work_minutes 10) 1500000000 1500000000)"

definition form_interval :: "int \<Rightarrow> SettingsForm" where
  "form_interval i =
     \<lparr>SettingsForm.work_duration = Some 25, short_break_duration = Some 5,
      long_break_duration = Some 15, long_break_interval = Some i,
      auto_start_breaks = False, auto_start_pomodoros = False,
      notifications_enabled = True, sound_enabled = True\<rparr>"

section \<open>Predicates of the properties\<close>

text \<open>
  Rounding a rational number to the nearest integer with ties towards plus
  infinity (round-half-up), next to \<open>round_half_even\<close>: the two policies that the
  specification names.
\<close>

definition round_half_up :: "rat \<Rightarrow> int" where
  "round_half_up q = \<lfloor>q + 1 / 2\<rfloor>"

text \<open>The domain of an integer setting: a number between \<open>lo\<close> and \<open>hi\<close>, both included.\<close>

definition in_range :: "int \<Rightarrow> int \<Rightarrow> int option \<Rightarrow> bool" where
  "in_range lo hi v = (case v of None \<Rightarrow> False | Some x \<Rightarrow> lo \<le> x \<and> x \<le> hi)"

text \<open>
  The invariant of the settings table: no two rows of one user, and every row belongs to
  a user.
\<close>

definition settings_ok :: "db \<Rightarrow> bool" where
  "settings_ok d \<longleftrightarrow>
     distinct (map UserSettings.user_id (user_settings d))
   \<and> set (map UserSettings.user_id (user_settings d)) \<subseteq> set (map User.id (users d))"

text \<open>
  The invariant of a session row at the clock reading \<open>t\<close>: a pending row has no
  completion time and did not start after \<open>t\<close>; a completed row has a completion time,
  and when its duration is not negative it started neither after \<open>t\<close> nor after its
  completion.
\<close>

definition session_ok :: "datetime \<Rightarrow> PomodoroSession \<Rightarrow> bool" where
  "session_ok t s \<longleftrightarrow>
     (completed s = False \<longrightarrow> completed_at s = None \<and> started_at s \<le> t)
   \<and> (completed s = True \<longrightarrow> completed_at s \<noteq> None)
   \<and> (completed s = True \<and> 0 \<le> PomodoroSession.duration s \<longrightarrow>
        started_at s \<le> t \<and> (\<forall>c. completed_at s = Some c \<longrightarrow> started_at s \<le> c))"

section \<open>Primary keys\<close>

lemma fold_max_ge: "a \<le> fold max xs (a::nat)"
  by (induction xs arbitrary: a) (auto intro: order_trans [OF max.cobounded2])

lemma fold_max_upper: "x \<in> set xs \<Longrightarrow> x \<le> fold max xs (a::nat)"
proof (induction xs arbitrary: a)
  case Nil
  then show ?case by simp
next
  case (Cons y ys)
  show ?case
  proof (cases "x = y")
    case True
    have "y \<le> max y a" by simp
    also have "\<dots> \<le> fold max ys (max y a)" by (rule fold_max_ge)
    finally show ?thesis using True by simp
  next
    case False
    with Cons show ?thesis by simp
  qed
qed

lemma next_id_fresh: "next_id ids \<notin> set ids"
proof
  assume "next_id ids \<in> set ids"
  then have "next_id ids \<le> fold max ids 0" by (rule fold_max_upper)
  then show False by (simp add: next_id_def)
qed


lemma load_user_Some: "load_user d uid = Some u \<Longrightarrow> User.id u = uid \<and> u \<in> set (users d)"
  by (auto simp: load_user_def find_Some_iff)

section \<open>What a session request does\<close>

lemma db_after_Inl: "db_after d (Inl e) = d"
  by (simp add: db_after_def)

lemma db_after_Inr: "db_after d (Inr (d', r)) = d'"
  by (simp add: db_after_def)

lemma add_PomodoroSession_Inr:
  assumes "add_PomodoroSession d uid dur cmpl ty started finished = Inr (d', row)"
  shows "d' = d\<lparr>pomodoro_sessions := pomodoro_sessions d @ [row]\<rparr>
       \<and> row = \<lparr>PomodoroSession.id = next_id (map PomodoroSession.id (pomodoro_sessions d)),
                user_id = uid, duration = the dur, completed = cmpl, session_type = the ty,
                started_at = started, completed_at = finished, task_description = None\<rparr>
       \<and> dur \<noteq> None \<and> ty \<noteq> None \<and> sqlite_integer (the dur)"
  using assms
  by (auto simp: add_PomodoroSession_def Let_def split: option.splits if_splits)

lemma start_session_Inr:
  assumes "start_session d uid data now = Inr (d', sid)"
  shows "\<exists>row. d' = d\<lparr>pomodoro_sessions := pomodoro_sessions d @ [row]\<rparr>
           \<and> PomodoroSession.id row = sid
           \<and> PomodoroSession.id row = next_id (map PomodoroSession.id (pomodoro_sessions d))
           \<and> PomodoroSession.user_id row = uid
           \<and> completed row = False \<and> completed_at row = None \<and> started_at row = now"
proof -
  from assms obtain row where
    "add_PomodoroSession d uid (dict_get (request_json.duration data) 25) False
       (dict_get (request_json.session_type data) ''work'') now None = Inr (d', row)"
    and "PomodoroSession.id row = sid"
    by (auto simp: start_session_def split: sum.splits)
  then show ?thesis by (auto dest!: add_PomodoroSession_Inr)
qed

lemma complete_session_Inr:
  assumes "complete_session d uid data now1 now2 = Inr (d', sid, cnt)"
  shows "\<exists>row. d' = d\<lparr>pomodoro_sessions := pomodoro_sessions d @ [row]\<rparr>
           \<and> PomodoroSession.id row = sid
           \<and> PomodoroSession.id row = next_id (map PomodoroSession.id (pomodoro_sessions d))
           \<and> PomodoroSession.user_id row = uid
           \<and> completed row = True \<and> completed_at row = Some now2
           \<and> started_at row = now1 - PomodoroSession.duration row * 60000000
           \<and> dict_get (request_json.duration data) 25 = Some (PomodoroSession.duration row)"
proof -
  from assms obtain m delta started row where
    "dict_get (request_json.duration data) 25 = Some m"
    and "timedelta_minutes m = Inr delta"
    and "datetime_sub now1 delta = Inr started"
    and add: "add_PomodoroSession d uid (Some m) True
       (dict_get (request_json.session_type data) ''work'') started (Some now2) = Inr (d', row)"
    and "PomodoroSession.id row = sid"
    by (auto simp: complete_session_def split: option.splits sum.splits)
  moreover from this have "delta = m * 60000000" and "started = now1 - delta"
    by (auto simp: timedelta_minutes_def datetime_sub_def split: if_splits)
  ultimately show ?thesis by (auto dest!: add_PomodoroSession_Inr)
qed

lemma db_after_start_session:
  "db_after d (start_session d uid data now) = d
   \<or> (\<exists>row. db_after d (start_session d uid data now)
               = d\<lparr>pomodoro_sessions := pomodoro_sessions d @ [row]\<rparr>
            \<and> PomodoroSession.user_id row = uid
            \<and> completed row = False \<and> completed_at row = None \<and> started_at row = now)"
proof (cases "start_session d uid data now")
  case (Inl e)
  then show ?thesis by (simp add: db_after_Inl)
next
  case (Inr r)
  then obtain d' sid where "start_session d uid data now = Inr (d', sid)" by (cases r) simp
  from start_session_Inr [OF this] this show ?thesis by (auto simp: db_after_Inr)
qed

lemma db_after_complete_session:
  "db_after d (complete_session d uid data now1 now2) = d
   \<or> (\<exists>row. db_after d (complete_session d uid data now1 now2)
               = d\<lparr>pomodoro_sessions := pomodoro_sessions d @ [row]\<rparr>
            \<and> PomodoroSession.user_id row = uid
            \<and> completed row = True \<and> completed_at row = Some now2
            \<and> started_at row = now1 - PomodoroSession.duration row * 60000000)"
proof (cases "complete_session d uid data now1 now2")
  case (Inl e)
  then show ?thesis by (simp add: db_after_Inl)
next
  case (Inr r)
  then obtain d' sid cnt where "complete_session d uid data now1 now2 = Inr (d', sid, cnt)"
    by (cases r) auto
  from complete_session_Inr [OF this] this show ?thesis by (auto simp: db_after_Inr)
qed

lemma timedelta_range_sqlite:
  assumes "- 999999999 \<le> m div 1440" and "m div 1440 \<le> 999999999"
  shows "sqlite_integer m"
proof -
  from assms have "- 1439999998560 \<le> m" and "m \<le> 1439999999999" by linarith+
  then show ?thesis by (simp add: sqlite_integer_def)
qed

lemma complete_session_ok:
  assumes "dict_get (request_json.duration data) 25 = Some m"
    and "- 999999999 \<le> m div 1440" and "m div 1440 \<le> 999999999"
    and "datetime_min \<le> now1 - m * 60000000" and "now1 - m * 60000000 \<le> datetime_max"
    and "dict_get (request_json.session_type data) ''work'' = Some ty"
  shows "complete_session d uid data now1 now2 =
     Inr (d\<lparr>pomodoro_sessions := pomodoro_sessions d
              @ [\<lparr>PomodoroSession.id = next_id (map PomodoroSession.id (pomodoro_sessions d)),
                  user_id = uid, duration = m, completed = True, session_type = ty,
                  started_at = now1 - m * 60000000, completed_at = Some now2,
                  task_description = None\<rparr>]\<rparr>,
          next_id (map PomodoroSession.id (pomodoro_sessions d)),
          total_count
            (d\<lparr>pomodoro_sessions := pomodoro_sessions d
              @ [\<lparr>PomodoroSession.id = next_id (map PomodoroSession.id (pomodoro_sessions d)),
                  user_id = uid, duration = m, completed = True, session_type = ty,
                  started_at = now1 - m * 60000000, completed_at = Some now2,
                  task_description = None\<rparr>]\<rparr>) uid)"
  using assms timedelta_range_sqlite [OF assms(2,3)]
  by (simp add: complete_session_def timedelta_minutes_def datetime_sub_def
      add_PomodoroSession_def Let_def)

lemma start_session_ok:
  assumes "dict_get (request_json.duration data) 25 = Some m" and "sqlite_integer m"
    and "dict_get (request_json.session_type data) ''work'' = Some ty"
  shows "start_session d uid data now =
     Inr (d\<lparr>pomodoro_sessions := pomodoro_sessions d
              @ [\<lparr>PomodoroSession.id = next_id (map PomodoroSession.id (pomodoro_sessions d)),
                  user_id = uid, duration = m, completed = False, session_type = ty,
                  started_at = now, completed_at = None, task_description = None\<rparr>]\<rparr>,
          next_id (map PomodoroSession.id (pomodoro_sessions d)))"
  using assms by (simp add: start_session_def add_PomodoroSession_def Let_def)

lemma dict_get_work_minutes:
  "dict_get (request_json.duration (work_minutes m)) 25 = Some m"
  "dict_get (request_json.session_type (work_minutes m)) ''work'' = Some ''work''"
  by (simp_all add: work_minutes_def dict_get_def)

lemma load_user_demo: "load_user demo_db 1 = Some demo_user"
  by (simp add: load_user_def demo_db_def demo_user_def seed_db_def empty_db_def next_id_def)

lemma demo_db_rows: "pomodoro_sessions demo_db = []"
  by (simp add: demo_db_def seed_db_def empty_db_def)

lemma minutes_db_rows:
  assumes "- 1440 \<le> m" and "m \<le> 1440"
  shows "pomodoro_sessions (minutes_db m) =
     [\<lparr>PomodoroSession.id = 1, user_id = 1, duration = m, completed = True,
       session_type = ''work'', started_at = 1500000000 - m * 60000000,
       completed_at = Some 1500000000, task_description = None\<rparr>]"
proof -
  from assms have "- 999999999 \<le> m div 1440" and "m div 1440 \<le> 999999999" by linarith+
  moreover from assms have "datetime_min \<le> 1500000000 - m * 60000000"
    and "1500000000 - m * 60000000 \<le> datetime_max"
    by (simp_all add: datetime_min_def datetime_max_def)
  ultimately show ?thesis
    unfolding minutes_db_def
    by (simp add: complete_session_ok [OF dict_get_work_minutes(1) _ _ _ _ dict_get_work_minutes(2)]
        db_after_Inr demo_db_rows next_id_def)
qed

lemma done_db_rows:
  "pomodoro_sessions done_db =
     [\<lparr>PomodoroSession.id = 1, user_id = 1, duration = 25, completed = True,
       session_type = ''work'', started_at = 0, completed_at = Some 1500000000,
       task_description = None\<rparr>]"
  unfolding done_db_def by (simp add: minutes_db_rows)

lemma started_db_rows:
  "pomodoro_sessions started_db =
     [\<lparr>PomodoroSession.id = 1, user_id = 1, duration = 25, completed = False,
       session_type = ''work'', started_at = 0, completed_at = None,
       task_description = None\<rparr>]"
  unfolding started_db_def work_25_def
  by (simp add: start_session_ok [OF dict_get_work_minutes(1) _ dict_get_work_minutes(2)]
      sqlite_integer_def db_after_Inr demo_db_rows next_id_def)

section \<open>Starting and completing sessions\<close>







section \<open>Who may call\<close>

text \<open>
  C2, as the code has it. A session request whose cookie names no existing user, or that
  has no cookie, is refused by \<^verbatim>\<open>@login_required\<close> with \<^verbatim>\<open>Unauthorized\<close>: the view
  does not run and the database stays as it is. For an existing user the two routes are the views
  \<open>start_session\<close> and \<open>complete_session\<close>.
\<close>

theorem unknown_user_is_refused:
  "(load_user d uid = None \<longrightarrow>
         api_session_start d (Some uid) data now = Inl Unauthorized
       \<and> api_session_complete d (Some uid) data now1 now2 = Inl Unauthorized
       \<and> db_after d (api_session_start d (Some uid) data now) = d
       \<and> db_after d (api_session_complete d (Some uid) data now1 now2) = d)
   \<and> api_session_start d None data now = Inl Unauthorized
   \<and> api_session_complete d None data now1 now2 = Inl Unauthorized
   \<and> db_after d (api_session_start d None data now) = d
   \<and> db_after d (api_session_complete d None data now1 now2) = d
   \<and> (load_user d uid \<noteq> None \<longrightarrow>
         api_session_start d (Some uid) data now = start_session d uid data now
       \<and> api_session_complete d (Some uid) data now1 now2
           = complete_session d uid data now1 now2)"
  by (auto simp: api_session_start_def api_session_complete_def login_required_def
        db_after_def dest: load_user_Some)

theorem unknown_user_is_refused_witness:
  "load_user demo_db 2 = None
   \<and> api_session_start demo_db (Some 2) work_25 0 = Inl Unauthorized
   \<and> api_session_complete demo_db (Some 2) work_25 0 0 = Inl Unauthorized
   \<and> db_after demo_db (api_session_start demo_db (Some 2) work_25 0) = demo_db
   \<and> load_user demo_db 1 \<noteq> None
   \<and> api_session_start demo_db (Some 1) work_25 0 = start_session demo_db 1 work_25 0"
proof -
  have yes: "load_user demo_db 1 \<noteq> None" using load_user_demo by simp
  have no: "load_user demo_db 2 = None"
    by (simp add: load_user_def demo_db_def seed_db_def empty_db_def next_id_def)
  show ?thesis
    using yes no
      unknown_user_is_refused [where d = demo_db and uid = 1 and data = work_25
        and now = 0 and ?now1.0 = 0 and ?now2.0 = 0]
      unknown_user_is_refused [where d = demo_db and uid = 2 and data = work_25
        and now = 0 and ?now1.0 = 0 and ?now2.0 = 0]
    by simp
qed

text \<open>
  The claim as stated fails: the session type \<^verbatim>\<open>nap\<close> is none of the three, and
  the start of such a session by the demo user succeeds and stores the row; and the
  request of a user that does not exist is answered with \<^verbatim>\<open>Unauthorized\<close>.
\<close>

theorem session_type_validation_counterexample:
  "''nap'' \<notin> set [''work'', ''short_break'', ''long_break'']
   \<and> api_session_start demo_db (Some 1) nap_25 0
     = Inr (demo_db\<lparr>pomodoro_sessions :=
                      [\<lparr>PomodoroSession.id = 1, user_id = 1, duration = 25, completed = False,
                        session_type = ''nap'', started_at = 0, completed_at = None,
                        task_description = None\<rparr>]\<rparr>, 1)
   \<and> api_session_start demo_db (Some 2) nap_25 0 = Inl Unauthorized"
  by (simp add: api_session_start_def login_required_def load_user_def
        demo_db_def seed_db_def empty_db_def nap_25_def start_session_def
        add_PomodoroSession_def sqlite_integer_def dict_get_def next_id_def Let_def)

section \<open>Statistics of one user\<close>

lemma count_via_user_filter:
  "length (filter (\<lambda>s. qualifying a s \<and> P s) xs)
     = length (filter (\<lambda>s. qualifying a s \<and> P s)
                 (filter (\<lambda>s. PomodoroSession.user_id s = a) xs))"
proof -
  have "(\<lambda>s. (qualifying a s \<and> P s) \<and> PomodoroSession.user_id s = a)
          = (\<lambda>s. qualifying a s \<and> P s)"
    by (auto simp: qualifying_def)
  then show ?thesis by (simp add: filter_filter conj_commute)
qed

lemma get_stats_via_user_filter:
  "get_stats d a now =
     (length (filter (\<lambda>s. qualifying a s \<and> date_of (started_at s) = date_of now)
                (filter (\<lambda>s. PomodoroSession.user_id s = a) (pomodoro_sessions d))),
      length (filter (\<lambda>s. qualifying a s \<and> True)
                (filter (\<lambda>s. PomodoroSession.user_id s = a) (pomodoro_sessions d))))"
  unfolding get_stats_def count_on_date_def total_count_def Let_def
  using count_via_user_filter [of a "\<lambda>s. date_of (started_at s) = date_of now" "pomodoro_sessions d"]
    count_via_user_filter [of a "\<lambda>s. True" "pomodoro_sessions d"]
  by simp

lemma user_rows_start_session:
  "a \<noteq> b \<Longrightarrow>
   filter (\<lambda>s. PomodoroSession.user_id s = a)
      (pomodoro_sessions (db_after d (start_session d b data t)))
     = filter (\<lambda>s. PomodoroSession.user_id s = a) (pomodoro_sessions d)"
  using db_after_start_session [of d b data t] by auto

lemma user_rows_complete_session:
  "a \<noteq> b \<Longrightarrow>
   filter (\<lambda>s. PomodoroSession.user_id s = a)
      (pomodoro_sessions (db_after d (complete_session d b data t1 t2)))
     = filter (\<lambda>s. PomodoroSession.user_id s = a) (pomodoro_sessions d)"
  using db_after_complete_session [of d b data t1 t2] by auto

text \<open>
  C10. The statistics of user \<open>a\<close> are the same in two databases that hold the same
  session rows of \<open>a\<close>, whatever rows of other users they hold; in particular a session
  request of another user \<open>b\<close>, to start or to complete, does not change them, whether
  it stores a row or raises.
\<close>

theorem get_stats_depends_on_own_sessions:
  "(filter (\<lambda>s. PomodoroSession.user_id s = a) (pomodoro_sessions d1)
      = filter (\<lambda>s. PomodoroSession.user_id s = a) (pomodoro_sessions d2)
    \<longrightarrow> get_stats d1 a now = get_stats d2 a now)
   \<and> (a \<noteq> b \<longrightarrow>
         get_stats (db_after d (start_session d b data t)) a now = get_stats d a now
       \<and> get_stats (db_after d (complete_session d b data t1 t2)) a now = get_stats d a now)"
  by (simp add: get_stats_via_user_filter user_rows_start_session user_rows_complete_session)

theorem get_stats_depends_on_own_sessions_witness:
  "filter (\<lambda>s. PomodoroSession.user_id s = 1) (pomodoro_sessions done_db)
      = filter (\<lambda>s. PomodoroSession.user_id s = 1)
          (pomodoro_sessions (db_after done_db (complete_session done_db 2 work_25 0 0)))
   \<and> length (pomodoro_sessions (db_after done_db (complete_session done_db 2 work_25 0 0))) = 2
   \<and> (1::nat) \<noteq> 2
   \<and> get_stats (db_after done_db (complete_session done_db 2 work_25 0 0)) 1 1500000000 = (1, 1)
   \<and> get_stats (db_after done_db (start_session done_db 2 work_25 0)) 1 1500000000 = (1, 1)
   \<and> get_stats done_db 1 1500000000 = (1, 1)"
proof -
  have dur: "dict_get (request_json.duration work_25) 25 = Some 25"
    and ty: "dict_get (request_json.session_type work_25) ''work'' = Some ''work''"
    by (simp_all add: work_25_def dict_get_work_minutes)
  have range: "- 999999999 \<le> (25::int) div 1440" "(25::int) div 1440 \<le> 999999999"
    "datetime_min \<le> 0 - 25 * 60000000" "0 - 25 * 60000000 \<le> datetime_max"
    by (simp_all add: datetime_min_def datetime_max_def)
  have other_rows: "pomodoro_sessions (db_after done_db (complete_session done_db 2 work_25 0 0))
      = pomodoro_sessions done_db
        @ [\<lparr>PomodoroSession.id = 2, user_id = 2, duration = 25, completed = True,
             session_type = ''work'', started_at = - 1500000000, completed_at = Some 0,
             task_description = None\<rparr>]"
    by (simp add: complete_session_ok [OF dur range ty] db_after_Inr done_db_rows next_id_def)
  have rows: "filter (\<lambda>s. PomodoroSession.user_id s = 1) (pomodoro_sessions done_db)
      = filter (\<lambda>s. PomodoroSession.user_id s = 1)
          (pomodoro_sessions (db_after done_db (complete_session done_db 2 work_25 0 0)))"
    by (simp add: other_rows)
  have two: "length (pomodoro_sessions
      (db_after done_db (complete_session done_db 2 work_25 0 0))) = 2"
    by (simp add: other_rows done_db_rows)
  have own: "get_stats done_db 1 1500000000 = (1, 1)"
    by (simp add: get_stats_def count_on_date_def total_count_def done_db_rows
        qualifying_def date_of_def)
  note stats = get_stats_depends_on_own_sessions [where a = 1 and b = 2 and d = done_db
      and ?d1.0 = done_db
      and ?d2.0 = "db_after done_db (complete_session done_db 2 work_25 0 0)"
      and t = 0 and data = work_25 and ?t1.0 = 0 and ?t2.0 = 0 and now = 1500000000]
  from stats [THEN conjunct1, THEN mp, OF rows]
  have same: "get_stats done_db 1 1500000000
                = get_stats (db_after done_db (complete_session done_db 2 work_25 0 0))
                    1 1500000000" .
  have "(1::nat) \<noteq> 2" by simp
  from stats [THEN conjunct2, THEN mp, OF this]
  have other: "get_stats (db_after done_db (start_session done_db 2 work_25 0)) 1 1500000000
                 = get_stats done_db 1 1500000000"
    by (rule conjunct1)
  show ?thesis
    using same other own by (intro conjI rows two) simp_all
qed

section \<open>The session cycle\<close>

text \<open>
  C9. After a work session the next type is long_break when the count \<open>n\<close> of completed
  work sessions of the cycle is a positive multiple of the long-break interval of the
  settings, and short_break otherwise; after a short or a long break it is work.
\<close>

theorem next_session_type_policy:
  "(0 < n \<and> UserSettings.long_break_interval s dvd int n
      \<longrightarrow> next_session_type s Work n = Long_break)
   \<and> (\<not> (0 < n \<and> UserSettings.long_break_interval s dvd int n)
      \<longrightarrow> next_session_type s Work n = Short_break)
   \<and> next_session_type s Short_break n = Work
   \<and> next_session_type s Long_break n = Work"
  by (simp add: next_session_type_def)

theorem next_session_type_policy_witness:
  "(0::nat) < 8 \<and> UserSettings.long_break_interval (default_UserSettings 1 1) dvd int 8
   \<and> next_session_type (default_UserSettings 1 1) Work 8 = Long_break
   \<and> \<not> UserSettings.long_break_interval (default_UserSettings 1 1) dvd int 3
   \<and> next_session_type (default_UserSettings 1 1) Work 3 = Short_break"
proof -
  have yes: "UserSettings.long_break_interval (default_UserSettings 1 1) dvd int 8"
    by (simp add: default_UserSettings_def)
  have no: "\<not> UserSettings.long_break_interval (default_UserSettings 1 1) dvd int 3"
    by (simp add: default_UserSettings_def)
  show ?thesis
    using yes no
      next_session_type_policy [where s = "default_UserSettings 1 1" and n = 8]
      next_session_type_policy [where s = "default_UserSettings 1 1" and n = 3]
    by simp
qed

section \<open>Settings\<close>

lemma validate_field_empty:
  "0 < lo \<Longrightarrow> validate_field lo hi v = [] \<longleftrightarrow> in_range lo hi v"
  by (auto simp: validate_field_def DataRequired_def NumberRange_def in_range_def
      split: option.splits)

lemma validate_iff:
  "validate form \<longleftrightarrow>
     in_range 1 60 (SettingsForm.work_duration form)
   \<and> in_range 1 30 (SettingsForm.short_break_duration form)
   \<and> in_range 1 60 (SettingsForm.long_break_duration form)
   \<and> in_range 2 10 (SettingsForm.long_break_interval form)"
  by (simp add: validate_def form_errors_def filter_empty_conv validate_field_empty)

lemma form_errors_keys:
  "map fst (form_errors form) =
     (if in_range 1 60 (SettingsForm.work_duration form) then [] else [''work_duration''])
   @ (if in_range 1 30 (SettingsForm.short_break_duration form) then []
      else [''short_break_duration''])
   @ (if in_range 1 60 (SettingsForm.long_break_duration form) then []
      else [''long_break_duration''])
   @ (if in_range 2 10 (SettingsForm.long_break_interval form) then []
      else [''long_break_interval''])"
  by (simp add: form_errors_def validate_field_empty)

lemma get_or_create_existing:
  "find (\<lambda>s. UserSettings.user_id s = uid) (user_settings d) = Some us
   \<Longrightarrow> get_or_create_settings d uid = (d, us)"
  by (simp add: get_or_create_settings_def)

lemma get_or_create_new:
  "find (\<lambda>s. UserSettings.user_id s = uid) (user_settings d) = None
   \<Longrightarrow> get_or_create_settings d uid =
        (d\<lparr>user_settings := user_settings d
              @ [default_UserSettings (next_id (map UserSettings.id (user_settings d))) uid]\<rparr>,
         default_UserSettings (next_id (map UserSettings.id (user_settings d))) uid)"
  by (simp add: get_or_create_settings_def Let_def)

lemma find_snoc_new:
  "find P xs = None \<Longrightarrow> P x \<Longrightarrow> find P (xs @ [x]) = Some x"
  by (induction xs) (auto split: if_splits)

lemma get_or_create_find:
  "find (\<lambda>s. UserSettings.user_id s = uid) (user_settings (fst (get_or_create_settings d uid)))
     = Some (snd (get_or_create_settings d uid))"
proof (cases "find (\<lambda>s. UserSettings.user_id s = uid) (user_settings d)")
  case None
  then show ?thesis
    by (simp add: get_or_create_new find_snoc_new default_UserSettings_def)
next
  case (Some us)
  then show ?thesis by (simp add: get_or_create_existing)
qed

lemma get_or_create_twice:
  "get_or_create_settings (fst (get_or_create_settings d uid)) uid = get_or_create_settings d uid"
  by (rule trans [OF get_or_create_existing [OF get_or_create_find]]) simp

lemma settings_rejected:
  "\<not> validate form \<Longrightarrow>
   settings d uid (Some form)
     = (fst (get_or_create_settings d uid),
        Render (form_errors form) (snd (get_or_create_settings d uid)))"
  by (simp add: settings_def split_beta)

lemma find_map_first:
  assumes "find P xs = Some x" and "\<And>y. P (f y) = P y"
  shows "find P (map (\<lambda>y. if g y = g x then f y else y) xs) = Some (f x)"
  using assms(1)
proof (induction xs)
  case Nil
  then show ?case by simp
next
  case (Cons y ys)
  show ?case
  proof (cases "P y")
    case True
    with Cons.prems have "y = x" by simp
    with True assms(2) show ?thesis by simp
  next
    case False
    with Cons.prems have "find P ys = Some x" by simp
    with Cons.IH have "find P (map (\<lambda>y. if g y = g x then f y else y) ys) = Some (f x)" by simp
    with False assms(2) show ?thesis by simp
  qed
qed

lemma populate_obj_user_id: "UserSettings.user_id (populate_obj form s) = UserSettings.user_id s"
  by (simp add: populate_obj_def)

lemma settings_accepted_response: "validate form \<Longrightarrow> snd (settings d uid (Some form)) = Redirect"
  by (simp add: settings_def split_beta)

lemma settings_accepted_row:
  assumes "validate form"
  shows "find (\<lambda>s. UserSettings.user_id s = uid) (user_settings (fst (settings d uid (Some form))))
           = Some (populate_obj form (snd (get_or_create_settings d uid)))"
proof -
  have "find (\<lambda>s. UserSettings.user_id s = uid)
          (map (\<lambda>s. if UserSettings.id s = UserSettings.id (snd (get_or_create_settings d uid))
                    then populate_obj form s else s)
             (user_settings (fst (get_or_create_settings d uid))))
        = Some (populate_obj form (snd (get_or_create_settings d uid)))"
    by (rule find_map_first [OF get_or_create_find]) (simp add: populate_obj_user_id)
  then show ?thesis
    using assms by (simp add: settings_def split_beta)
qed

text \<open>
  C6. A submitted settings form is accepted exactly when the work duration and the long
  break duration are numbers from 1 to 60, the short break duration is a number from 1 to
  30 and the long break interval is a number from 2 to 10. The errors of the form name
  exactly the fields outside their domain. A form that is not accepted changes nothing:
  the view answers with the page and the errors, and the database is the one that the
  lookup of the settings row leaves, which is the database before the request when the
  user has a settings row. A form that is accepted redirects, and the settings row of the
  user then holds the values of the form.
\<close>

theorem update_settings_all_or_nothing:
  "(validate form \<longleftrightarrow>
       in_range 1 60 (SettingsForm.work_duration form)
     \<and> in_range 1 30 (SettingsForm.short_break_duration form)
     \<and> in_range 1 60 (SettingsForm.long_break_duration form)
     \<and> in_range 2 10 (SettingsForm.long_break_interval form))
   \<and> map fst (form_errors form) =
       (if in_range 1 60 (SettingsForm.work_duration form) then [] else [''work_duration''])
     @ (if in_range 1 30 (SettingsForm.short_break_duration form) then []
        else [''short_break_duration''])
     @ (if in_range 1 60 (SettingsForm.long_break_duration form) then []
        else [''long_break_duration''])
     @ (if in_range 2 10 (SettingsForm.long_break_interval form) then []
        else [''long_break_interval''])
   \<and> (\<not> validate form \<longrightarrow>
         settings d uid (Some form)
           = (fst (get_or_create_settings d uid),
              Render (form_errors form) (snd (get_or_create_settings d uid)))
       \<and> form_errors form \<noteq> []
       \<and> (\<forall>us. find (\<lambda>s. UserSettings.user_id s = uid) (user_settings d) = Some us
               \<longrightarrow> fst (settings d uid (Some form)) = d))
   \<and> (validate form \<longrightarrow>
         snd (settings d uid (Some form)) = Redirect
       \<and> find (\<lambda>s. UserSettings.user_id s = uid)
            (user_settings (fst (settings d uid (Some form))))
           = Some (populate_obj form (snd (get_or_create_settings d uid))))"
proof -
  have rejected: "fst (settings d uid (Some form)) = d"
    if "\<not> validate form"
      and "find (\<lambda>s. UserSettings.user_id s = uid) (user_settings d) = Some us" for us
    using that by (simp add: settings_rejected get_or_create_existing)
  have errors: "form_errors form \<noteq> []" if "\<not> validate form"
    using that by (simp add: validate_def)
  show ?thesis
    using validate_iff [of form] form_errors_keys [of form] settings_rejected [of form d uid]
      settings_accepted_response [of form d uid] settings_accepted_row [of form uid d]
      rejected errors
    by blast
qed

theorem update_settings_all_or_nothing_witness:
  "\<not> validate (form_interval 1)
   \<and> map fst (form_errors (form_interval 1)) = [''long_break_interval'']
   \<and> settings demo_db 1 (Some (form_interval 1))
       = (fst (get_or_create_settings demo_db 1),
          Render (form_errors (form_interval 1)) (snd (get_or_create_settings demo_db 1)))
   \<and> fst (settings (fst (get_or_create_settings demo_db 1)) 1 (Some (form_interval 1)))
       = fst (get_or_create_settings demo_db 1)
   \<and> validate (form_interval 10)
   \<and> snd (settings demo_db 1 (Some (form_interval 10))) = Redirect
   \<and> map_option UserSettings.long_break_interval
        (find (\<lambda>s. UserSettings.user_id s = 1)
           (user_settings (fst (settings demo_db 1 (Some (form_interval 10)))))) = Some 10"
proof -
  have r1: "in_range 1 60 (SettingsForm.work_duration (form_interval i))
     \<and> in_range 1 30 (SettingsForm.short_break_duration (form_interval i))
     \<and> in_range 1 60 (SettingsForm.long_break_duration (form_interval i))" for i
    by (simp add: form_interval_def in_range_def)
  have r2: "\<not> in_range 2 10 (SettingsForm.long_break_interval (form_interval 1))"
    by (simp add: form_interval_def in_range_def)
  have r3: "in_range 2 10 (SettingsForm.long_break_interval (form_interval 10))"
    by (simp add: form_interval_def in_range_def)
  have r4: "UserSettings.long_break_interval (populate_obj (form_interval 10) us) = 10" for us
    by (simp add: populate_obj_def form_interval_def)
  have r5: "fst (settings (fst (get_or_create_settings demo_db 1)) 1 (Some (form_interval 1)))
       = fst (get_or_create_settings demo_db 1)"
    using r1 [of 1] r2 get_or_create_find [of 1 demo_db]
      update_settings_all_or_nothing [where form = "form_interval 1"
        and d = "fst (get_or_create_settings demo_db 1)" and uid = 1]
    by blast
  show ?thesis
    using r1 r2 r3 r4 r5
      update_settings_all_or_nothing [where form = "form_interval 1" and d = demo_db and uid = 1]
      update_settings_all_or_nothing [where form = "form_interval 10" and d = demo_db and uid = 1]
    by simp
qed

section \<open>Invariants of the reachable states\<close>

lemma find_None_user_id:
  "find (\<lambda>s. UserSettings.user_id s = uid) xs = None
   \<Longrightarrow> uid \<notin> set (map UserSettings.user_id xs)"
  by (auto simp: find_None_iff)

lemma settings_ok_cong:
  assumes "settings_ok d"
    and "map UserSettings.user_id (user_settings d') = map UserSettings.user_id (user_settings d)"
    and "map User.id (users d') = map User.id (users d)"
  shows "settings_ok d'"
  using assms unfolding settings_ok_def by metis

lemma db_after_session_tables:
  "users (db_after d (start_session d uid data now)) = users d"
  "user_settings (db_after d (start_session d uid data now)) = user_settings d"
  "users (db_after d (complete_session d uid data now1 now2)) = users d"
  "user_settings (db_after d (complete_session d uid data now1 now2)) = user_settings d"
  using db_after_start_session [of d uid data now]
    db_after_complete_session [of d uid data now1 now2]
  by auto

lemma settings_ok_get_or_create:
  assumes "settings_ok d" and "uid \<in> set (map User.id (users d))"
  shows "settings_ok (fst (get_or_create_settings d uid))"
proof (cases "find (\<lambda>s. UserSettings.user_id s = uid) (user_settings d)")
  case None
  then have "uid \<notin> set (map UserSettings.user_id (user_settings d))"
    by (rule find_None_user_id)
  with assms None show ?thesis
    by (simp add: settings_ok_def get_or_create_new default_UserSettings_def)
next
  case (Some us)
  with assms show ?thesis by (simp add: get_or_create_existing)
qed

lemma settings_ok_settings:
  assumes "settings_ok d" and "uid \<in> set (map User.id (users d))"
  shows "settings_ok (fst (settings d uid request))"
proof -
  let ?d1 = "fst (get_or_create_settings d uid)"
  have ok: "settings_ok ?d1"
    using assms by (rule settings_ok_get_or_create)
  show ?thesis
  proof (cases request)
    case None
    with ok show ?thesis by (simp add: settings_def split_beta)
  next
    case (Some form)
    show ?thesis
    proof (cases "validate form")
      case True
      have "settings_ok (?d1\<lparr>user_settings :=
              map (\<lambda>s. if UserSettings.id s = UserSettings.id (snd (get_or_create_settings d uid))
                        then populate_obj form s else s) (user_settings ?d1)\<rparr>)"
        using ok by (rule settings_ok_cong) (simp_all add: comp_def populate_obj_user_id)
      with True Some show ?thesis by (simp add: settings_def split_beta)
    next
      case False
      with ok Some show ?thesis by (simp add: settings_def split_beta)
    qed
  qed
qed

lemma settings_ok_register: "settings_ok d \<Longrightarrow> settings_ok (register d name mail pwhash now)"
  using next_id_fresh [of "map User.id (users d)"]
  by (auto simp: settings_ok_def register_def Let_def default_UserSettings_def)

lemma settings_ok_seed_db: "settings_ok d \<Longrightarrow> settings_ok (seed_db d pwhash now)"
  by (auto simp: settings_ok_def seed_db_def Let_def)

lemma reachable_settings_ok: "reachable t d \<Longrightarrow> settings_ok d"
proof (induction rule: reachable.induct)
  case (init t)
  show ?case by (simp add: settings_ok_def empty_db_def)
next
  case (do_register t d now name mail pwhash)
  then show ?case by (simp add: settings_ok_register)
next
  case (do_seed_db t d now pwhash)
  then show ?case by (simp add: settings_ok_seed_db)
next
  case (do_login t d now uid u)
  from do_login.IH show ?case
    unfolding update_last_login_def
    by (rule settings_ok_cong) (simp_all add: comp_def)
next
  case (do_settings t d uid u request)
  from do_settings.hyps(2) have "User.id u \<in> set (map User.id (users d))"
    by (auto dest: load_user_Some)
  with do_settings.IH show ?case by (rule settings_ok_settings)
next
  case (do_start_session t d uid u now data)
  from do_start_session.IH show ?case
    by (rule settings_ok_cong) (simp_all add: db_after_session_tables)
next
  case (do_complete_session t d uid u now1 now2 data)
  from do_complete_session.IH show ?case
    by (rule settings_ok_cong) (simp_all add: db_after_session_tables)
next
  case (do_PomodoroSession_complete_session t d now sid)
  then show ?case by (simp add: settings_ok_def PomodoroSession_complete_session_def)
qed

lemma distinct_count_le_1:
  "distinct (map f xs) \<Longrightarrow> length (filter (\<lambda>s. f s = u) xs) \<le> 1"
proof (induction xs)
  case Nil
  then show ?case by simp
next
  case (Cons x xs)
  show ?case
  proof (cases "f x = u")
    case True
    with Cons.prems have "u \<notin> f ` set xs" by auto
    then have "filter (\<lambda>s. f s = u) xs = []" by (auto simp: filter_empty_conv)
    with True show ?thesis by simp
  next
    case False
    with Cons show ?thesis by simp
  qed
qed

lemma reachable_one_settings_row:
  "reachable t d \<Longrightarrow> length (filter (\<lambda>s. UserSettings.user_id s = uid) (user_settings d)) \<le> 1"
  using reachable_settings_ok [of t d]
    distinct_count_le_1 [of UserSettings.user_id "user_settings d" uid]
  by (simp add: settings_ok_def)

lemma find_Some_count: "find P xs = Some x \<Longrightarrow> 1 \<le> length (filter P xs)"
  by (induction xs) (auto split: if_splits)

lemma find_None_filter: "find P xs = None \<Longrightarrow> filter P xs = []"
  by (induction xs) (auto split: if_splits)

lemma reachable_get_or_create_count:
  assumes "reachable t d"
  shows "length (filter (\<lambda>s. UserSettings.user_id s = uid)
                   (user_settings (fst (get_or_create_settings d uid)))) = 1"
proof (cases "find (\<lambda>s. UserSettings.user_id s = uid) (user_settings d)")
  case None
  then show ?thesis
    by (simp add: get_or_create_new find_None_filter default_UserSettings_def)
next
  case (Some us)
  from Some have "1 \<le> length (filter (\<lambda>s. UserSettings.user_id s = uid) (user_settings d))"
    by (rule find_Some_count)
  moreover from assms
  have "length (filter (\<lambda>s. UserSettings.user_id s = uid) (user_settings d)) \<le> 1"
    by (rule reachable_one_settings_row)
  ultimately show ?thesis using Some by (simp add: get_or_create_existing)
qed

lemma session_ok_mono: "session_ok t s \<Longrightarrow> t \<le> t' \<Longrightarrow> session_ok t' s"
  by (auto simp: session_ok_def)

lemma reachable_session_ok: "reachable t d \<Longrightarrow> \<forall>s \<in> set (pomodoro_sessions d). session_ok t s"
proof (induction rule: reachable.induct)
  case (init t)
  show ?case by (simp add: empty_db_def)
next
  case (do_register t d now name mail pwhash)
  then show ?case by (auto simp: register_def Let_def intro: session_ok_mono)
next
  case (do_seed_db t d now pwhash)
  then show ?case by (auto simp: seed_db_def Let_def intro: session_ok_mono)
next
  case (do_login t d now uid u)
  then show ?case by (auto simp: update_last_login_def intro: session_ok_mono)
next
  case (do_settings t d uid u request)
  then show ?case
    by (cases request)
      (auto simp: settings_def split_beta get_or_create_settings_def Let_def
        split: option.splits if_splits)
next
  case (do_start_session t d uid u now data)
  have old: "session_ok now s" if "s \<in> set (pomodoro_sessions d)" for s
    using do_start_session.IH that do_start_session.hyps(3)
    by (auto intro: session_ok_mono)
  show ?case
    using db_after_start_session [of d "User.id u" data now] old
    by (auto simp: session_ok_def)
next
  case (do_complete_session t d uid u now1 now2 data)
  have new: "now1 - m * 60000000 \<le> now2 \<and> now1 - m * 60000000 \<le> now2" if "0 \<le> m" for m
    using do_complete_session.hyps(4) that by simp
  have old: "session_ok now2 s" if "s \<in> set (pomodoro_sessions d)" for s
    using do_complete_session.IH that do_complete_session.hyps(3,4)
    by (auto intro: session_ok_mono)
  show ?case
    using db_after_complete_session [of d "User.id u" data now1 now2] old new
    by (auto simp: session_ok_def)
next
  case (do_PomodoroSession_complete_session t d now sid)
  have "session_ok now (s\<lparr>completed := True, completed_at := Some now\<rparr>)"
    if "session_ok t s" for s
    using that do_PomodoroSession_complete_session.hyps(2) by (auto simp: session_ok_def)
  with do_PomodoroSession_complete_session show ?case
    by (auto simp: PomodoroSession_complete_session_def intro: session_ok_mono)
qed

lemma reachable_demo: "reachable 0 demo_db"
  unfolding demo_db_def by (rule reachable.do_seed_db [OF reachable.init [of 0]]) simp

lemma reachable_started: "reachable 0 started_db"
proof -
  have "reachable 0 (db_after demo_db (start_session demo_db (User.id demo_user) work_25 0))"
    by (rule reachable.do_start_session [OF reachable_demo load_user_demo]) simp
  then show ?thesis by (simp add: started_db_def demo_user_def)
qed

lemma reachable_done: "reachable 1500000000 done_db"
proof -
  have "reachable 1500000000
          (db_after demo_db
             (complete_session demo_db (User.id demo_user) work_25 1500000000 1500000000))"
    by (rule reachable.do_complete_session [OF reachable_demo load_user_demo]) simp_all
  then show ?thesis by (simp add: done_db_def minutes_db_def work_25_def demo_user_def)
qed

lemma get_or_create_settings_statements:
  "get_or_create_settings d uid = create_if_missing d uid (first_user_settings d uid)"
  by (simp add: get_or_create_settings_def create_if_missing_def first_user_settings_def)

text \<open>
  Requests served one after the other. In every state that the application reaches this
  way, a user has at most one settings row, and exactly one after the lookup at the head
  of the settings view. The lookup repeated on its own result returns the same row and
  the same database, so no second row is created. Without a row of the user, the lookup
  appends the row with the defaults (25, 5, 15, 4, no auto-start, notifications and sound
  on, light theme) and returns it; with a row, it returns the row and changes nothing.
\<close>

lemma get_or_create_settings_sequential:
  "(reachable t d \<longrightarrow>
       length (filter (\<lambda>s. UserSettings.user_id s = uid) (user_settings d)) \<le> 1
     \<and> length (filter (\<lambda>s. UserSettings.user_id s = uid)
                  (user_settings (fst (get_or_create_settings d uid)))) = 1)
   \<and> get_or_create_settings (fst (get_or_create_settings d uid)) uid
       = get_or_create_settings d uid
   \<and> (find (\<lambda>s. UserSettings.user_id s = uid) (user_settings d) = None \<longrightarrow>
        snd (get_or_create_settings d uid)
          = \<lparr>UserSettings.id = next_id (map UserSettings.id (user_settings d)),
             user_id = uid,
             work_duration = 25, short_break_duration = 5, long_break_duration = 15,
             long_break_interval = 4,
             auto_start_breaks = False, auto_start_pomodoros = False,
             notifications_enabled = True, sound_enabled = True,
             theme = ''light''\<rparr>
      \<and> user_settings (fst (get_or_create_settings d uid))
          = user_settings d @ [snd (get_or_create_settings d uid)])
   \<and> (\<forall>us. find (\<lambda>s. UserSettings.user_id s = uid) (user_settings d) = Some us \<longrightarrow>
          get_or_create_settings d uid = (d, us))"
proof -
  have new: "snd (get_or_create_settings d uid)
          = \<lparr>UserSettings.id = next_id (map UserSettings.id (user_settings d)),
             user_id = uid,
             work_duration = 25, short_break_duration = 5, long_break_duration = 15,
             long_break_interval = 4,
             auto_start_breaks = False, auto_start_pomodoros = False,
             notifications_enabled = True, sound_enabled = True,
             theme = ''light''\<rparr>
      \<and> user_settings (fst (get_or_create_settings d uid))
          = user_settings d @ [snd (get_or_create_settings d uid)]"
    if "find (\<lambda>s. UserSettings.user_id s = uid) (user_settings d) = None"
    using that by (simp add: get_or_create_new default_UserSettings_def)
  show ?thesis
    using new reachable_one_settings_row [of t d uid] reachable_get_or_create_count [of t d uid]
      get_or_create_twice [of d uid] get_or_create_existing [of uid d]
    by blast
qed

text \<open>
  C3 fails in the code when two requests overlap. The demo user of \<^verbatim>\<open>seed_db\<close>
  exists and has no settings row. Two first requests of that user for the settings page,
  each of which runs the query before the other has inserted, both find no row and both
  insert one: the table then holds the rows with the ids 1 and 2, both of user 1, each
  with the defaults, and every later lookup returns the first of them. The lookup of the
  view is these two statements, one after the other; served one after the other, the two
  requests leave one row.
\<close>

theorem settings_rows_race:
  "reachable 0 demo_db
   \<and> load_user demo_db 1 = Some demo_user
   \<and> user_settings demo_db = []
   \<and> (\<forall>d uid. get_or_create_settings d uid
          = create_if_missing d uid (first_user_settings d uid))
   \<and> user_settings (overlapping_settings_requests demo_db 1 1)
       = [default_UserSettings 1 1, default_UserSettings 2 1]
   \<and> map (\<lambda>s. (UserSettings.id s, UserSettings.user_id s))
         (user_settings (overlapping_settings_requests demo_db 1 1)) = [(1, 1), (2, 1)]
   \<and> length (filter (\<lambda>s. UserSettings.user_id s = 1)
         (user_settings (overlapping_settings_requests demo_db 1 1))) = 2
   \<and> snd (get_or_create_settings (overlapping_settings_requests demo_db 1 1) 1)
       = default_UserSettings 1 1
   \<and> user_settings
         (fst (get_or_create_settings (fst (get_or_create_settings demo_db 1)) 1))
       = [default_UserSettings 1 1]"
proof -
  have empty: "user_settings demo_db = []"
    by (simp add: demo_db_def seed_db_def empty_db_def)
  have rows: "user_settings (overlapping_settings_requests demo_db 1 1)
       = [default_UserSettings 1 1, default_UserSettings 2 1]"
    by (simp add: overlapping_settings_requests_def first_user_settings_def
        create_if_missing_def empty next_id_def default_UserSettings_def Let_def)
  have ids: "map (\<lambda>s. (UserSettings.id s, UserSettings.user_id s))
         (user_settings (overlapping_settings_requests demo_db 1 1)) = [(1, 1), (2, 1)]"
    unfolding rows by (simp add: default_UserSettings_def)
  have two: "length (filter (\<lambda>s. UserSettings.user_id s = 1)
         (user_settings (overlapping_settings_requests demo_db 1 1))) = 2"
    unfolding rows by (simp add: default_UserSettings_def)
  have later: "snd (get_or_create_settings (overlapping_settings_requests demo_db 1 1) 1)
       = default_UserSettings 1 1"
    unfolding get_or_create_settings_def rows by (simp add: default_UserSettings_def)
  have sequential: "user_settings
         (fst (get_or_create_settings (fst (get_or_create_settings demo_db 1)) 1))
       = [default_UserSettings 1 1]"
    by (simp add: get_or_create_settings_def empty next_id_def default_UserSettings_def Let_def)
  show ?thesis
    using get_or_create_settings_statements
    by (intro conjI reachable_demo load_user_demo empty rows ids two later sequential) simp
qed

text \<open>
  C7. In every state that the application reaches, a session row that is not completed
  has no completion time, and a completed row whose duration is positive has a completion
  time that is not before its start.
\<close>

theorem session_rows_completion_invariant:
  "reachable t d \<Longrightarrow> s \<in> set (pomodoro_sessions d) \<Longrightarrow>
     (completed s = False \<longrightarrow> completed_at s = None)
   \<and> (completed s = True \<and> 0 < PomodoroSession.duration s \<longrightarrow>
        (\<exists>c. completed_at s = Some c \<and> started_at s \<le> c))"
proof -
  assume "reachable t d" and "s \<in> set (pomodoro_sessions d)"
  then have "session_ok t s" using reachable_session_ok by blast
  then show ?thesis by (auto simp: session_ok_def)
qed

theorem session_rows_completion_invariant_witness:
  "reachable 1500000000 done_db
   \<and> last (pomodoro_sessions done_db) \<in> set (pomodoro_sessions done_db)
   \<and> completed (last (pomodoro_sessions done_db)) = True
   \<and> 0 < PomodoroSession.duration (last (pomodoro_sessions done_db))
   \<and> (\<exists>c. completed_at (last (pomodoro_sessions done_db)) = Some c
          \<and> started_at (last (pomodoro_sessions done_db)) \<le> c)
   \<and> reachable 0 started_db
   \<and> last (pomodoro_sessions started_db) \<in> set (pomodoro_sessions started_db)
   \<and> completed (last (pomodoro_sessions started_db)) = False
   \<and> completed_at (last (pomodoro_sessions started_db)) = None"
proof -
  have row: "last (pomodoro_sessions done_db) \<in> set (pomodoro_sessions done_db)"
    by (simp add: done_db_rows)
  have facts: "completed (last (pomodoro_sessions done_db)) = True
      \<and> 0 < PomodoroSession.duration (last (pomodoro_sessions done_db))"
    by (simp add: done_db_rows)
  have pending: "last (pomodoro_sessions started_db) \<in> set (pomodoro_sessions started_db)"
    by (simp add: started_db_rows)
  have not_done: "completed (last (pomodoro_sessions started_db)) = False"
    by (simp add: started_db_rows)
  show ?thesis
    using row facts reachable_done pending not_done reachable_started
      session_rows_completion_invariant [OF reachable_done row]
      session_rows_completion_invariant [OF reachable_started pending]
    by blast
qed

section \<open>The weekly histogram\<close>

lemma weekly_loop_map:
  "weekly_loop d uid today is acc
     = acc @ map (\<lambda>i. count_on_date d uid (today - (6 - int i))) is"
  by (induction "is" arbitrary: acc) simp_all

lemma upt_7: "[0..<7] = [0, 1, 2, 3, 4, 5, 6]"
  by (simp add: upt_rec numeral_eq_Suc)

lemma weekly_histogram_entries:
  "weekly_histogram d uid today =
     [count_on_date d uid (today - 6), count_on_date d uid (today - 5),
      count_on_date d uid (today - 4), count_on_date d uid (today - 3),
      count_on_date d uid (today - 2), count_on_date d uid (today - 1),
      count_on_date d uid today]"
  by (simp add: weekly_histogram_def weekly_loop_map upt_7)

lemma week_partition:
  "length (filter (\<lambda>s. Q s \<and> f s = (t::int) - 6) xs)
   + length (filter (\<lambda>s. Q s \<and> f s = t - 5) xs)
   + length (filter (\<lambda>s. Q s \<and> f s = t - 4) xs)
   + length (filter (\<lambda>s. Q s \<and> f s = t - 3) xs)
   + length (filter (\<lambda>s. Q s \<and> f s = t - 2) xs)
   + length (filter (\<lambda>s. Q s \<and> f s = t - 1) xs)
   + length (filter (\<lambda>s. Q s \<and> f s = t) xs)
   = length (filter (\<lambda>s. Q s \<and> t - 6 \<le> f s \<and> f s \<le> t) xs)"
proof (induction xs)
  case Nil
  then show ?case by simp
next
  case (Cons x xs)
  have "f x < t - 6 \<or> f x = t - 6 \<or> f x = t - 5 \<or> f x = t - 4 \<or> f x = t - 3
        \<or> f x = t - 2 \<or> f x = t - 1 \<or> f x = t \<or> t < f x"
    by arith
  with Cons show ?case by (cases "Q x") auto
qed

lemma weekly_histogram_sum:
  "sum_list (weekly_histogram d uid today)
     = length (filter (\<lambda>s. qualifying uid s \<and> today - 6 \<le> date_of (started_at s)
                           \<and> date_of (started_at s) \<le> today) (pomodoro_sessions d))"
  unfolding weekly_histogram_entries count_on_date_def
  using week_partition [of "qualifying uid" "\<lambda>s. date_of (started_at s)" today "pomodoro_sessions d"]
  by simp

lemma count_since_bounded:
  assumes "\<forall>s \<in> set (pomodoro_sessions d). qualifying uid s \<longrightarrow> date_of (started_at s) \<le> today"
  shows "count_since d uid (today - 6)
     = length (filter (\<lambda>s. qualifying uid s \<and> today - 6 \<le> date_of (started_at s)
                           \<and> date_of (started_at s) \<le> today) (pomodoro_sessions d))"
  unfolding count_since_def
  using assms by (auto intro!: arg_cong [where f = length] filter_cong)

lemma date_of_mono: "a \<le> b \<Longrightarrow> date_of a \<le> date_of b"
  by (simp add: date_of_def zdiv_mono1)

lemma reachable_not_future:
  assumes "reachable t d" and "t \<le> now"
    and "\<forall>s \<in> set (pomodoro_sessions d). 0 \<le> PomodoroSession.duration s"
  shows "\<forall>s \<in> set (pomodoro_sessions d).
           qualifying uid s \<longrightarrow> date_of (started_at s) \<le> date_of now"
proof (intro ballI impI)
  fix s
  assume s: "s \<in> set (pomodoro_sessions d)" and q: "qualifying uid s"
  from assms(1) s have "session_ok t s" using reachable_session_ok by blast
  with q assms(3) s have "started_at s \<le> t" by (simp add: session_ok_def qualifying_def)
  with assms(2) show "date_of (started_at s) \<le> date_of now"
    by (intro date_of_mono) simp
qed

text \<open>
  C4, as the code has it. The histogram has seven entries, the counts of the days
  \<open>today - 6\<close> to \<open>today\<close> in this order, and their sum is the number of completed work
  sessions of the user that started on one of these seven days. The sum is
  \<open>count_since\<close> of \<open>today - 6\<close> when no completed work session of the user is dated after
  \<open>today\<close>; this is so in every reachable state whose durations are not negative, for the
  date of any clock reading that is not before the latest one.
\<close>

theorem weekly_histogram_week_counts:
  "length (weekly_histogram d uid today) = 7
   \<and> weekly_histogram d uid today =
       [count_on_date d uid (today - 6), count_on_date d uid (today - 5),
        count_on_date d uid (today - 4), count_on_date d uid (today - 3),
        count_on_date d uid (today - 2), count_on_date d uid (today - 1),
        count_on_date d uid today]
   \<and> sum_list (weekly_histogram d uid today)
       = length (filter (\<lambda>s. qualifying uid s \<and> today - 6 \<le> date_of (started_at s)
                             \<and> date_of (started_at s) \<le> today) (pomodoro_sessions d))
   \<and> ((\<forall>s \<in> set (pomodoro_sessions d). qualifying uid s \<longrightarrow> date_of (started_at s) \<le> today)
        \<longrightarrow> sum_list (weekly_histogram d uid today) = count_since d uid (today - 6))
   \<and> (reachable t d \<and> t \<le> now
        \<and> (\<forall>s \<in> set (pomodoro_sessions d). 0 \<le> PomodoroSession.duration s)
        \<longrightarrow> sum_list (weekly_histogram d uid (date_of now))
              = count_since d uid (date_of now - 6))"
proof -
  have len: "length (weekly_histogram d uid today) = 7"
    by (simp add: weekly_histogram_entries)
  have bounded: "sum_list (weekly_histogram d uid day) = count_since d uid (day - 6)"
    if "\<forall>s \<in> set (pomodoro_sessions d). qualifying uid s \<longrightarrow> date_of (started_at s) \<le> day"
    for day
    using that by (simp only: weekly_histogram_sum count_since_bounded)
  have reach: "sum_list (weekly_histogram d uid (date_of now))
              = count_since d uid (date_of now - 6)"
    if "reachable t d" and "t \<le> now"
      and "\<forall>s \<in> set (pomodoro_sessions d). 0 \<le> PomodoroSession.duration s"
    using reachable_not_future [OF that] by (rule bounded)
  show ?thesis
    using len weekly_histogram_entries [of d uid today] weekly_histogram_sum [of d uid today]
      bounded [of today] reach
    by blast
qed

theorem weekly_histogram_week_counts_witness:
  "reachable 1500000000 done_db \<and> (1500000000::int) \<le> 1500000000
   \<and> map PomodoroSession.duration (pomodoro_sessions done_db) = [25]
   \<and> map (\<lambda>s. date_of (started_at s)) (filter (qualifying 1) (pomodoro_sessions done_db))
       = [date_of 1500000000]
   \<and> sum_list (weekly_histogram done_db 1 (date_of 1500000000)) = 1
   \<and> count_since done_db 1 (date_of 1500000000 - 6) = 1"
proof -
  have dur: "\<forall>s \<in> set (pomodoro_sessions done_db). 0 \<le> PomodoroSession.duration s"
    by (simp add: done_db_rows)
  have cnt: "count_since done_db 1 (date_of 1500000000 - 6) = 1"
    by (simp add: count_since_def done_db_rows qualifying_def date_of_def)
  have durs: "map PomodoroSession.duration (pomodoro_sessions done_db) = [25]"
    by (simp add: done_db_rows)
  have dates: "map (\<lambda>s. date_of (started_at s))
                 (filter (qualifying 1) (pomodoro_sessions done_db)) = [date_of 1500000000]"
    by (simp add: done_db_rows qualifying_def date_of_def)
  show ?thesis
    using dur durs dates cnt reachable_done
      weekly_histogram_week_counts [where d = done_db and uid = 1 and t = 1500000000
        and now = 1500000000 and today = 0]
    by simp
qed

text \<open>
  The claim as stated fails on a ledger with a session dated after today: the demo user
  completes a work session whose duration is minus one day, which is recorded as started
  tomorrow. The histogram of today sums to 0 and \<open>count_since\<close> of six days ago is 1.
\<close>

theorem weekly_histogram_counterexample:
  "sum_list (weekly_histogram future_db 1 (date_of 0)) = 0
   \<and> count_since future_db 1 (date_of 0 - 6) = 1"
  by (simp add: weekly_histogram_entries count_on_date_def count_since_def future_db_def
      complete_session_def work_minutes_def demo_db_rows Let_def db_after_def
      dict_get_def qualifying_def timedelta_minutes_def datetime_sub_def datetime_min_def
      datetime_max_def add_PomodoroSession_def sqlite_integer_def date_of_def)

section \<open>Total focus time in hours\<close>

lemma round_half_even_near:
  assumes "\<bar>q - of_int m\<bar> < 1 / 2"
  shows "round_half_even q = m"
proof -
  let ?f = "\<lfloor>q\<rfloor>"
  have lo: "of_int ?f \<le> q" and hi: "q < of_int ?f + 1" by linarith+
  from assms have m1: "of_int m - 1 / 2 < q" and m2: "q < of_int m + 1 / 2" by linarith+
  have "(of_int ?f :: rat) < of_int m + 1" using lo m2 by linarith
  then have f_le: "?f \<le> m" by (simp flip: of_int_add add: of_int_less_iff del: of_int_add)
  have "(of_int m :: rat) < of_int ?f + 2" using hi m1 by linarith
  then have "m < ?f + 2" by (simp flip: of_int_add add: of_int_less_iff del: of_int_add)
  with f_le consider "?f = m" | "?f = m - 1" by linarith
  then show ?thesis
  proof cases
    case 1
    with m2 have "q - of_int ?f < 1 / 2" by simp
    with 1 show ?thesis by (simp add: round_half_even_def Let_def)
  next
    case 2
    with m1 have "1 / 2 < q - of_int ?f" by simp
    with 2 show ?thesis by (simp add: round_half_even_def Let_def)
  qed
qed

lemma round_half_even_error: "\<bar>of_int (round_half_even q) - q\<bar> \<le> 1 / 2"
proof -
  have lo: "of_int \<lfloor>q\<rfloor> \<le> q" and hi: "q < of_int \<lfloor>q\<rfloor> + 1" by linarith+
  then show ?thesis by (auto simp: round_half_even_def Let_def)
qed

lemma pow2_powi: "pow2 e = 2 powi e"
proof (cases "0 \<le> e")
  case True
  then show ?thesis by (simp add: pow2_def power_int_def)
next
  case False
  then have "pow2 e = 1 / 2 ^ nat (- e)" by (simp add: pow2_def)
  also have "\<dots> = inverse (2 ^ nat (- e))" by (simp only: inverse_eq_divide)
  also have "\<dots> = inverse 2 ^ nat (- e)" by (simp only: power_inverse)
  also have "\<dots> = 2 powi e" using False by (simp only: power_int_def if_False)
  finally show ?thesis .
qed

lemma pow2_pos: "0 < pow2 e"
  by (simp add: pow2_powi)

lemma pow2_add: "pow2 (a + b) = pow2 a * pow2 b"
  by (simp add: pow2_powi power_int_add)

lemma ilog2_lower:
  assumes "q \<noteq> 0"
  shows "pow2 (ilog2 q) \<le> \<bar>q\<bar>"
proof -
  obtain a b where ab: "quotient_of \<bar>q\<bar> = (a, b)" by (cases "quotient_of \<bar>q\<bar>")
  then have b: "0 < b" by (rule quotient_of_denom_pos)
  from ab have q: "\<bar>q\<bar> = of_int a / of_int b" by (rule quotient_of_div)
  from assms have "0 < \<bar>q\<bar>" by simp
  with q b have a: "0 < a" by (simp add: zero_less_divide_iff)
  let ?k = "bitlen a - bitlen b"
  show ?thesis
  proof (cases "pow2 ?k \<le> \<bar>q\<bar>")
    case True
    with ab show ?thesis by (simp add: ilog2_def Let_def)
  next
    case False
    from bitlen_bounds [OF a] have "2 ^ nat (bitlen a - 1) \<le> a" by simp
    then have "(of_int (2 ^ nat (bitlen a - 1)) :: rat) \<le> of_int a"
      by (simp only: of_int_le_iff)
    moreover from a have "1 \<le> bitlen a" by (simp add: bitlen_alt_def)
    ultimately have la: "2 powi (bitlen a - 1) \<le> (of_int a :: rat)"
      by (simp add: power_int_def)
    from bitlen_bounds [OF b] have "b \<le> 2 ^ nat (bitlen b)" by simp
    then have "(of_int b :: rat) \<le> of_int (2 ^ nat (bitlen b))"
      by (simp only: of_int_le_iff)
    then have lb: "(of_int b :: rat) \<le> 2 powi (bitlen b)"
      by (simp add: power_int_def bitlen_nonneg)
    have "pow2 (?k - 1) = 2 powi (bitlen a - 1) / 2 powi (bitlen b)"
      by (simp add: pow2_powi power_int_diff)
    also have "\<dots> \<le> of_int a / 2 powi (bitlen b)"
      using la by (simp add: divide_right_mono)
    also have "\<dots> \<le> of_int a / of_int b"
      using lb a b by (simp add: divide_left_mono)
    finally have "pow2 (?k - 1) \<le> \<bar>q\<bar>" using q by simp
    with False ab show ?thesis by (simp add: ilog2_def Let_def)
  qed
qed

lemma float_of_rat_error:
  assumes "q \<noteq> 0"
  shows "\<bar>float_of_rat q - q\<bar> \<le> pow2 (max (ilog2 q) (- 1022) - 52) / 2"
proof -
  let ?p = "pow2 (max (ilog2 q) (- 1022) - 52)"
  have p: "0 < ?p" by (rule pow2_pos)
  have "float_of_rat q - q = (of_int (round_half_even (q / ?p)) - q / ?p) * ?p"
    using assms p by (simp add: float_of_rat_def Let_def field_simps)
  then have "\<bar>float_of_rat q - q\<bar> = \<bar>of_int (round_half_even (q / ?p)) - q / ?p\<bar> * ?p"
    using p by (simp add: abs_mult)
  also have "\<dots> \<le> 1 / 2 * ?p"
    using round_half_even_error [of "q / ?p"] p by (intro mult_right_mono) simp_all
  finally show ?thesis by simp
qed

lemma float_of_rat_tenths_error:
  assumes "n \<noteq> 0" and "\<bar>n\<bar> < 2 ^ 53"
  shows "\<bar>float_of_rat (of_int n / 60) * 10 - of_int n / 6\<bar> < 1 / 6"
proof -
  let ?q = "of_int n / 60 :: rat"
  let ?p = "pow2 (max (ilog2 ?q) (- 1022) - 52)"
  from assms(1) have q: "?q \<noteq> 0" by simp
  then have err: "\<bar>float_of_rat ?q - ?q\<bar> \<le> ?p / 2"
    by (rule float_of_rat_error)
  have absq: "\<bar>?q\<bar> = of_int \<bar>n\<bar> / 60" by simp
  have small: "?p / 2 < 1 / 60"
  proof (cases "- 1022 \<le> ilog2 ?q")
    case True
    then have "?p = pow2 (ilog2 ?q) * pow2 (- 52)"
      by (simp add: max_def pow2_add [symmetric])
    also have "\<dots> \<le> \<bar>?q\<bar> * pow2 (- 52)"
      using ilog2_lower [OF q] pow2_pos [of "- 52"] by (intro mult_right_mono) simp_all
    finally have "?p / 2 \<le> \<bar>?q\<bar> * pow2 (- 52) / 2" by simp
    also have "\<dots> = of_int \<bar>n\<bar> / (60 * 2 ^ 53)" by (simp only: absq) (simp add: pow2_def)
    also have "\<dots> < 2 ^ 53 / (60 * 2 ^ 53)"
    proof -
      from assms(2) have "(of_int \<bar>n\<bar> :: rat) < of_int (2 ^ 53)" by (simp only: of_int_less_iff)
      then show ?thesis by (intro divide_strict_right_mono) simp_all
    qed
    finally show ?thesis by simp
  next
    case False
    then have "?p = pow2 (- 1074)" by (simp add: max_def)
    then show ?thesis by (simp add: pow2_def)
  qed
  have "\<bar>float_of_rat ?q * 10 - of_int n / 6\<bar> = 10 * \<bar>float_of_rat ?q - ?q\<bar>"
    by (simp add: abs_if field_simps)
  with err small show ?thesis by linarith
qed

lemma nearest_sixth:
  assumes "n mod 6 \<noteq> 3"
  shows "\<bar>of_int n / 6 - of_int ((n + 3) div 6)\<bar> \<le> (1 / 3 :: rat)"
proof -
  let ?m = "(n + 3) div 6"
  from assms have "- 2 \<le> n - 6 * ?m" and "n - 6 * ?m \<le> 2" by presburger+
  then have "(of_int (- 2) :: rat) \<le> of_int (n - 6 * ?m)"
    and "(of_int (n - 6 * ?m) :: rat) \<le> of_int 2"
    by (simp_all only: of_int_le_iff)
  then show ?thesis by (simp add: abs_le_iff field_simps)
qed

lemma round_half_up_sixth: "round_half_up (of_int n / 60 * 10) = (n + 3) div 6"
proof -
  have "(of_int n / 60 * 10 + 1 / 2 :: rat) = of_int (n + 3) / of_int 6" by simp
  then show ?thesis
    unfolding round_half_up_def by (simp only: floor_divide_of_int_eq)
qed

lemma round_half_even_sixth:
  assumes "n mod 6 \<noteq> 3"
  shows "round_half_even (of_int n / 60 * 10) = (n + 3) div 6"
proof (rule round_half_even_near)
  from nearest_sixth [OF assms]
  show "\<bar>of_int n / 60 * 10 - of_int ((n + 3) div 6)\<bar> < (1 / 2 :: rat)" by simp
qed

lemma float_of_rat_0: "float_of_rat 0 = 0"
  by (simp add: float_of_rat_def)

lemma hours_tenths:
  assumes "\<bar>n\<bar> < 2 ^ 53" and "n mod 6 \<noteq> 3"
  shows "round_half_even (float_of_rat (of_int n / 60) * 10) = (n + 3) div 6"
proof (cases "n = 0")
  case True
  then show ?thesis by (simp add: float_of_rat_0 round_half_even_def)
next
  case False
  from float_of_rat_tenths_error [OF this assms(1)] nearest_sixth [OF assms(2)]
  have "\<bar>float_of_rat (of_int n / 60) * 10 - of_int ((n + 3) div 6)\<bar> < 1 / 2"
    by linarith
  then show ?thesis by (rule round_half_even_near)
qed

lemma hours_tenths_tie:
  assumes "\<bar>n\<bar> < 2 ^ 53" and "n mod 6 = 3"
  shows "round_half_even (float_of_rat (of_int n / 60) * 10)
     = (if float_of_rat (of_int n / 60) < of_int n / 60 then n div 6
        else if of_int n / 60 < float_of_rat (of_int n / 60) then n div 6 + 1
        else if even (n div 6) then n div 6 else n div 6 + 1)"
proof -
  let ?x = "float_of_rat (of_int n / 60)"
  let ?y = "?x * 10"
  from assms(2) have "n \<noteq> 0" by auto
  note err = float_of_rat_tenths_error [OF this assms(1)]
  from assms(2) have "n = 6 * (n div 6) + 3" by presburger
  then have "(of_int n :: rat) = of_int (6 * (n div 6) + 3)" by (simp only:)
  then have half: "(of_int n / 6 :: rat) = of_int (n div 6) + 1 / 2" by simp
  with err have "of_int (n div 6) \<le> ?y" and "?y < of_int (n div 6) + 1" by linarith+
  then have floor: "\<lfloor>?y\<rfloor> = n div 6" by (intro floor_unique) simp_all
  have "(of_int n / 60 :: rat) * 10 = of_int n / 6" by simp
  with half have q: "(of_int n / 60 :: rat) * 10 = of_int (n div 6) + 1 / 2" by simp
  have lt: "?x < of_int n / 60 \<longleftrightarrow> ?y - of_int (n div 6) < 1 / 2"
    using q by linarith
  have gt: "of_int n / 60 < ?x \<longleftrightarrow> 1 / 2 < ?y - of_int (n div 6)"
    using q by linarith
  show ?thesis
    unfolding round_half_even_def Let_def floor lt gt by (rule refl)
qed

lemma py_truediv_60:
  assumes "\<bar>n\<bar> < 2 ^ 53"
  shows "\<not> 2 ^ 1024 \<le> \<bar>float_of_rat (of_int n / 60)\<bar>"
proof (cases "n = 0")
  case True
  then show ?thesis by (simp add: float_of_rat_0)
next
  case False
  from assms have "(of_int \<bar>n\<bar> :: rat) < of_int (2 ^ 53)" by (simp only: of_int_less_iff)
  then have n: "\<bar>of_int n :: rat\<bar> < 2 ^ 53" by simp
  from float_of_rat_tenths_error [OF False assms]
  have "\<bar>float_of_rat (of_int n / 60)\<bar> < \<bar>of_int n :: rat\<bar> / 60 + 1"
    by (simp add: abs_if split: if_splits)
  also have "\<dots> < 2 ^ 53 / 60 + 1" using n by simp
  also have "\<dots> < 2 ^ 1024" by simp
  finally show ?thesis by simp
qed

lemma total_focus_hours_unfold:
  "total_focus_hours d uid
     = (if 2 ^ 1024 \<le> \<bar>float_of_rat (of_int (total_duration d uid) / 60)\<bar>
        then Inl OverflowError
        else Inr (float_of_rat
               (of_int (round_half_even
                  (float_of_rat (of_int (total_duration d uid) / 60) * 10)) / 10)))"
  by (simp add: total_focus_hours_def py_truediv_def py_round1_def Let_def)

lemma total_duration_sum:
  "total_duration d uid
     = sum_list (map PomodoroSession.duration (filter (qualifying uid) (pomodoro_sessions d)))"
  by (simp add: total_duration_def or_0_def sql_sum_def)

lemma float_of_rat_1: "float_of_rat 1 = 1"
  by code_simp

lemma minutes_db_duration:
  "- 1440 \<le> m \<Longrightarrow> m \<le> 1440 \<Longrightarrow> total_duration (minutes_db m) 1 = m"
  by (simp add: total_duration_sum minutes_db_rows qualifying_def)

lemma three_db_rows:
  "map PomodoroSession.duration (filter (qualifying 1) (pomodoro_sessions three_db))
     = [25, 25, 10]"
proof -
  have range: "- 999999999 \<le> m div 1440" "m div 1440 \<le> 999999999"
    "datetime_min \<le> 1500000000 - m * 60000000" "1500000000 - m * 60000000 \<le> datetime_max"
    if "0 \<le> m" and "m \<le> 25" for m :: int
    using that by (simp_all add: datetime_min_def datetime_max_def pos_imp_zdiv_nonneg_iff
        div_le_dividend order_trans [OF zdiv_mono1 [of m 25 1440]])
  note step = complete_session_ok [OF dict_get_work_minutes(1) range dict_get_work_minutes(2)]
  show ?thesis
    unfolding three_db_def
    by (simp add: step db_after_Inr minutes_db_rows qualifying_def)
qed

lemma three_db_duration: "total_duration three_db 1 = 60"
  unfolding total_duration_sum three_db_rows by simp

text \<open>
  C5, as the code has it. \<open>total_duration\<close> is the sum \<open>n\<close> of the durations of the
  completed work sessions of the user. The hours follow one rule: \<open>x\<close> is the float
  nearest to \<open>n / 60\<close>, the division raises when \<open>x\<close> does not fit a float, and the hours
  are the float nearest to the tenth nearest to \<open>x\<close>, ties to the even tenth. For a sum
  between \<open>- 2 ^ 53\<close> and \<open>2 ^ 53\<close> the division does not raise. In this range, when
  \<open>n / 60\<close> is not half-way between two tenths (\<open>n mod 6\<close> is not 3), the tenth is the one
  nearest to \<open>n / 60\<close>, \<open>(n + 3) div 6\<close> tenths, which is also what round-half-even and
  round-half-up of the exact quotient give. When \<open>n / 60\<close> is half-way (\<open>n mod 6 = 3\<close>),
  the tenth is the lower neighbour \<open>n div 6\<close> if \<open>x\<close> is below \<open>n / 60\<close>, the upper
  neighbour if \<open>x\<close> is above, and the even one of the two if \<open>x\<close> is \<open>n / 60\<close>.
\<close>

theorem total_focus_hours_rounding:
  "total_duration d uid
     = sum_list (map PomodoroSession.duration (filter (qualifying uid) (pomodoro_sessions d)))
   \<and> (let n = total_duration d uid;
           q = of_int n / 60;
           x = float_of_rat q;
           tenths = round_half_even (x * 10)
       in total_focus_hours d uid
            = (if 2 ^ 1024 \<le> \<bar>x\<bar> then Inl OverflowError
               else Inr (float_of_rat (of_int tenths / 10)))
        \<and> (\<bar>n\<bar> < 2 ^ 53 \<longrightarrow>
              total_focus_hours d uid = Inr (float_of_rat (of_int tenths / 10))
            \<and> (n mod 6 \<noteq> 3 \<longrightarrow>
                  tenths = (n + 3) div 6
                \<and> round_half_even (q * 10) = (n + 3) div 6
                \<and> round_half_up (q * 10) = (n + 3) div 6)
            \<and> (n mod 6 = 3 \<longrightarrow>
                  tenths = (if x < q then n div 6
                            else if q < x then n div 6 + 1
                            else if even (n div 6) then n div 6 else n div 6 + 1))))"
proof -
  let ?n = "total_duration d uid"
  have hours: "total_focus_hours d uid
      = Inr (float_of_rat (of_int (round_half_even (float_of_rat (of_int ?n / 60) * 10)) / 10))"
    if "\<bar>?n\<bar> < 2 ^ 53"
    using py_truediv_60 [OF that] by (simp only: total_focus_hours_unfold if_False)
  show ?thesis
    unfolding Let_def
    using total_duration_sum [of d uid] total_focus_hours_unfold [of d uid] hours
      hours_tenths [of ?n] hours_tenths_tie [of ?n]
      round_half_even_sixth [of ?n] round_half_up_sixth [of ?n]
    by blast
qed

theorem total_focus_hours_rounding_witness:
  "total_duration three_db 1 = 60
   \<and> \<bar>60::int\<bar> < 2 ^ 53 \<and> (60::int) mod 6 \<noteq> 3
   \<and> total_focus_hours three_db 1 = Inr 1
   \<and> total_duration (minutes_db 9) 1 = 9
   \<and> \<bar>9::int\<bar> < 2 ^ 53 \<and> (9::int) mod 6 = 3
   \<and> float_of_rat (of_int 9 / 60) < of_int 9 / 60
   \<and> total_focus_hours (minutes_db 9) 1 = Inr (float_of_rat (of_int 1 / 10))
   \<and> total_duration (minutes_db 3) 1 = 3
   \<and> of_int 3 / 60 < float_of_rat (of_int 3 / 60)
   \<and> total_focus_hours (minutes_db 3) 1 = Inr (float_of_rat (of_int 1 / 10))
   \<and> total_duration (minutes_db 15) 1 = 15
   \<and> float_of_rat (of_int 15 / 60) = of_int 15 / 60
   \<and> total_focus_hours (minutes_db 15) 1 = Inr (float_of_rat (of_int 2 / 10))
   \<and> total_duration (minutes_db (- 9)) 1 = - 9
   \<and> total_focus_hours (minutes_db (- 9)) 1 = Inr (float_of_rat (of_int (- 1) / 10))"
proof -
  have n60: "total_duration three_db 1 = 60" by (rule three_db_duration)
  have n9: "total_duration (minutes_db 9) 1 = 9" by (rule minutes_db_duration) simp_all
  have n3: "total_duration (minutes_db 3) 1 = 3" by (rule minutes_db_duration) simp_all
  have n15: "total_duration (minutes_db 15) 1 = 15" by (rule minutes_db_duration) simp_all
  have m9: "total_duration (minutes_db (- 9)) 1 = - 9" by (rule minutes_db_duration) simp_all
  have b60: "\<bar>60::int\<bar> < 2 ^ 53" and b9: "\<bar>9::int\<bar> < 2 ^ 53" and b3: "\<bar>3::int\<bar> < 2 ^ 53"
    and b15: "\<bar>15::int\<bar> < 2 ^ 53" and bm9: "\<bar>- 9::int\<bar> < 2 ^ 53"
    by simp_all
  have r60: "(60::int) mod 6 \<noteq> 3" and r9: "(9::int) mod 6 = 3" and r3: "(3::int) mod 6 = 3"
    and r15: "(15::int) mod 6 = 3" and rm9: "(- 9::int) mod 6 = 3"
    by simp_all
  have x9: "float_of_rat (of_int 9 / 60) < of_int 9 / 60" by code_simp
  have x3: "of_int 3 / 60 < float_of_rat (of_int 3 / 60)" by code_simp
  have x3': "\<not> float_of_rat (of_int 3 / 60) < of_int 3 / 60" using x3 by simp
  have x15: "float_of_rat (of_int 15 / 60) = of_int 15 / 60" by code_simp
  have xm9: "of_int (- 9) / 60 < float_of_rat (of_int (- 9) / 60)" by code_simp
  have xm9': "\<not> float_of_rat (of_int (- 9) / 60) < of_int (- 9) / 60" using xm9 by simp
  note t60 = total_focus_hours_rounding [where d = three_db and uid = 1,
      THEN conjunct2, unfolded Let_def n60, THEN conjunct2, THEN mp, OF b60]
  note t9 = total_focus_hours_rounding [where d = "minutes_db 9" and uid = 1,
      THEN conjunct2, unfolded Let_def n9, THEN conjunct2, THEN mp, OF b9]
  note t3 = total_focus_hours_rounding [where d = "minutes_db 3" and uid = 1,
      THEN conjunct2, unfolded Let_def n3, THEN conjunct2, THEN mp, OF b3]
  note t15 = total_focus_hours_rounding [where d = "minutes_db 15" and uid = 1,
      THEN conjunct2, unfolded Let_def n15, THEN conjunct2, THEN mp, OF b15]
  note tm9 = total_focus_hours_rounding [where d = "minutes_db (- 9)" and uid = 1,
      THEN conjunct2, unfolded Let_def m9, THEN conjunct2, THEN mp, OF bm9]
  have "round_half_even (float_of_rat (of_int 60 / 60) * 10) = (60 + 3) div 6"
    using t60 [THEN conjunct2, THEN conjunct1, THEN mp, OF r60] by (rule conjunct1)
  with t60 [THEN conjunct1]
  have "total_focus_hours three_db 1 = Inr (float_of_rat (of_int ((60 + 3) div 6) / 10))"
    by (simp only:)
  then have h60: "total_focus_hours three_db 1 = Inr 1" by (simp add: float_of_rat_1)
  have "round_half_even (float_of_rat (of_int 9 / 60) * 10) = 9 div 6"
    using t9 [THEN conjunct2, THEN conjunct2, THEN mp, OF r9] by (simp only: x9 if_True)
  with t9 [THEN conjunct1]
  have "total_focus_hours (minutes_db 9) 1 = Inr (float_of_rat (of_int (9 div 6) / 10))"
    by (simp only:)
  moreover have "(9::int) div 6 = 1" by simp
  ultimately have h9: "total_focus_hours (minutes_db 9) 1 = Inr (float_of_rat (of_int 1 / 10))"
    by (simp only:)
  have "round_half_even (float_of_rat (of_int 3 / 60) * 10) = 3 div 6 + 1"
    using t3 [THEN conjunct2, THEN conjunct2, THEN mp, OF r3]
    by (simp only: x3 x3' if_True if_False)
  with t3 [THEN conjunct1]
  have "total_focus_hours (minutes_db 3) 1 = Inr (float_of_rat (of_int (3 div 6 + 1) / 10))"
    by (simp only:)
  moreover have "(3::int) div 6 + 1 = 1" by simp
  ultimately have h3: "total_focus_hours (minutes_db 3) 1 = Inr (float_of_rat (of_int 1 / 10))"
    by (simp only:)
  have e15: "even ((15::int) div 6)" by simp
  have l15: "\<not> (of_int 15 / 60 :: rat) < of_int 15 / 60" by simp
  have "round_half_even (float_of_rat (of_int 15 / 60) * 10) = 15 div 6"
    using t15 [THEN conjunct2, THEN conjunct2, THEN mp, OF r15]
    by (simp only: x15 l15 e15 if_True if_False)
  with t15 [THEN conjunct1]
  have "total_focus_hours (minutes_db 15) 1 = Inr (float_of_rat (of_int (15 div 6) / 10))"
    by (simp only:)
  moreover have "(15::int) div 6 = 2" by simp
  ultimately have h15: "total_focus_hours (minutes_db 15) 1 = Inr (float_of_rat (of_int 2 / 10))"
    by (simp only:)
  have "round_half_even (float_of_rat (of_int (- 9) / 60) * 10) = - 9 div 6 + 1"
    using tm9 [THEN conjunct2, THEN conjunct2, THEN mp, OF rm9]
    by (simp only: xm9 xm9' if_True if_False)
  with tm9 [THEN conjunct1]
  have "total_focus_hours (minutes_db (- 9)) 1
      = Inr (float_of_rat (of_int (- 9 div 6 + 1) / 10))"
    by (simp only:)
  moreover have "(- 9::int) div 6 + 1 = - 1" by simp
  ultimately have hm9: "total_focus_hours (minutes_db (- 9)) 1
      = Inr (float_of_rat (of_int (- 1) / 10))"
    by (simp only:)
  show ?thesis
    by (intro conjI n60 b60 r60 h60 n9 b9 r9 x9 h9 n3 x3 h3 n15 x15 h15 m9 hm9)
qed

text \<open>
  The claim as stated fails at a half-way quotient: for one completed work session of 9
  minutes the hours are the float 0.1, while round-half-even and round-half-up of 0.15
  both give 0.2. Neither policy for half-way cases, applied to the quotient, describes
  the code: 3 minutes (0.05) are rounded up to 0.1 and 9 minutes (0.15) down to 0.1.
\<close>

theorem total_focus_hours_counterexample:
  "total_duration (minutes_db 9) 1 = 9
   \<and> total_focus_hours (minutes_db 9) 1 = Inr (float_of_rat (1 / 10))
   \<and> round_half_even (of_int 9 / 60 * 10) = 2
   \<and> round_half_up (of_int 9 / 60 * 10) = 2
   \<and> float_of_rat (1 / 10) \<noteq> float_of_rat (2 / 10)
   \<and> total_focus_hours (minutes_db 3) 1 = Inr (float_of_rat (1 / 10))"
proof -
  have n9: "total_duration (minutes_db 9) 1 = 9" by (rule minutes_db_duration) simp_all
  have n3: "total_duration (minutes_db 3) 1 = 3" by (rule minutes_db_duration) simp_all
  have d9: "py_truediv 9 60 = Inr (float_of_rat (of_int 9 / 60))"
    using py_truediv_60 [of 9] by (simp add: py_truediv_def)
  have "total_focus_hours (minutes_db 9) 1 = Inr (py_round1 (float_of_rat (of_int 9 / 60)))"
    by (simp only: total_focus_hours_def n9 d9 sum.case)
  moreover have "py_round1 (float_of_rat (of_int 9 / 60)) = float_of_rat (1 / 10)"
    by code_simp
  ultimately have h9: "total_focus_hours (minutes_db 9) 1 = Inr (float_of_rat (1 / 10))"
    by (simp only:)
  have d3: "py_truediv 3 60 = Inr (float_of_rat (of_int 3 / 60))"
    using py_truediv_60 [of 3] by (simp add: py_truediv_def)
  have "total_focus_hours (minutes_db 3) 1 = Inr (py_round1 (float_of_rat (of_int 3 / 60)))"
    by (simp only: total_focus_hours_def n3 d3 sum.case)
  moreover have "py_round1 (float_of_rat (of_int 3 / 60)) = float_of_rat (1 / 10)"
    by code_simp
  ultimately have h3: "total_focus_hours (minutes_db 3) 1 = Inr (float_of_rat (1 / 10))"
    by (simp only:)
  have e: "round_half_even (of_int 9 / 60 * 10) = 2" by code_simp
  have u: "round_half_up (of_int 9 / 60 * 10) = 2" by code_simp
  have ne: "float_of_rat (1 / 10) \<noteq> float_of_rat (2 / 10)"
    by code_simp
  from h9 h3 e u ne n9 show ?thesis by blast
qed

end
